theory Spec2Isabelle
  imports Complex_Main "HOL-Library.Multiset"
begin

section \<open>Ranking proxy (api/index.go): data model\<close>

text \<open>
  The Go structs of \<^verbatim>\<open>api/index.go\<close> as records. A Go \<^verbatim>\<open>int\<close> field is an
  \<^typ>\<open>int\<close> (the program only copies these fields, it never computes with them), a
  \<^verbatim>\<open>float64\<close> field is the \<^typ>\<open>real\<close> number the finite float denotes (a value
  decoded from JSON is always finite), a Go string is a \<^typ>\<open>string\<close> of bytes.
\<close>

record SeasonData =
  CID :: string
  Cnt :: real
  End :: string
  Name :: string
  RankCnt :: int
  Rst :: int
  Rule :: int
  Season :: int
  Start :: string
  Ts1 :: real
  Ts2 :: real

text \<open>
  \<^verbatim>\<open>map[string]map[string]SeasonData\<close>. Both loops of the program range over the
  map and ignore the keys; a Go \<^verbatim>\<open>range\<close> visits every entry once, in an order the
  runtime chooses. The map is an association list (distinct keys), and the list a loop
  runs over is the map in the order that loop visits it.
\<close>

type_synonym season_map = "(string \<times> (string \<times> SeasonData) list) list"

record SeasonList =
  Seasons :: season_map

record RankResponseRawData =
  Rank :: int
  RatingValue :: real
  Icon :: string
  RName :: string
  Lng :: string

text \<open>
  A record field is one constant of the theory, so the field \<^verbatim>\<open>Name\<close> of
  \<^verbatim>\<open>RankResponseRawData\<close> is \<open>RName\<close> here, and the field \<^verbatim>\<open>SeasonData\<close> of
  \<^verbatim>\<open>RankingResponse\<close> is \<open>SeasonData_of\<close>.
\<close>

record RankingResponse =
  SeasonData_of :: SeasonData
  Top1000 :: "RankResponseRawData list"

section \<open>The Go library functions the program calls\<close>

subsection \<open>strings.Replace(s, "/", "-", -1)\<close>

definition strings_Replace_slash :: "string \<Rightarrow> string" where
  "strings_Replace_slash s = map (\<lambda>c. if c = CHR ''/'' then CHR ''-'' else c) s"

subsection \<open>time.Parse with the layout "2006-01-02 15:04:05"\<close>

text \<open>
  A parsed \<^verbatim>\<open>time.Time\<close>: \<^verbatim>\<open>time.Parse\<close> returns
  \<^verbatim>\<open>Date(year, month, day, hour, min, sec, nsec, UTC)\<close> after it has checked every
  field's range, so the value is given by its civil fields in UTC.
\<close>

record Time =
  year :: int
  month :: int
  day :: int
  hour :: int
  minute :: int
  second :: int
  nanosecond :: int

datatype parse_problem = CannotParse | OutOfRange string | ExtraText string

datatype ParseError = ParseError string parse_problem

definition digit_byte :: "char \<Rightarrow> bool" where
  "digit_byte c = (c \<in> set ''0123456789'')"

text \<open>The byte minus \<^verbatim>\<open>'0'\<close>, for a digit: its place among the ten digits.\<close>

definition digit_val :: "char \<Rightarrow> nat" where
  "digit_val c = length (takeWhile (\<lambda>d. d \<noteq> c) ''0123456789'')"

definition isDigit :: "string \<Rightarrow> nat \<Rightarrow> bool" where
  "isDigit s i = (if length s \<le> i then False else digit_byte (s ! i))"

definition commaOrPeriod :: "char \<Rightarrow> bool" where
  "commaOrPeriod b = (b = CHR ''.'' \<or> b = CHR '','')"

text \<open>\<^verbatim>\<open>getnum\<close>: one or two digits; exactly two when \<open>fixed\<close>. \<open>None\<close> is \<^verbatim>\<open>errBad\<close>.\<close>

definition getnum :: "string \<Rightarrow> bool \<Rightarrow> (int \<times> string) option" where
  "getnum s fixed =
    (if \<not> isDigit s 0 then None
     else if \<not> isDigit s 1 then
       (if fixed then None else Some (int (digit_val (s ! 0)), drop 1 s))
     else Some (int (digit_val (s ! 0)) * 10 + int (digit_val (s ! 1)), drop 2 s))"

definition cutspace :: "string \<Rightarrow> string" where
  "cutspace s = dropWhile (\<lambda>c. c = CHR '' '') s"

text \<open>
  \<^verbatim>\<open>skip(value, prefix)\<close>: a space of the layout matches any run of spaces of the
  value (also none, at the end of the value); any other byte matches itself.
\<close>

function skip :: "string \<Rightarrow> string \<Rightarrow> string option" where
  "skip val [] = Some val"
| "skip val (p # prefix) =
    (if p = CHR '' '' then
       (if val \<noteq> [] \<and> hd val \<noteq> CHR '' '' then None
        else skip (cutspace val) (cutspace prefix))
     else if val = [] \<or> hd val \<noteq> p then None
     else skip (tl val) prefix)"
  by pat_completeness auto
termination
  by (relation "measure (\<lambda>(v, p). length p)")
     (auto simp: cutspace_def intro: le_imp_less_Suc length_dropWhile_le)

text \<open>
  \<^verbatim>\<open>leadingInt\<close> (the digits at the front of a string, as a uint64, with its overflow
  checks) and \<^verbatim>\<open>atoi\<close> (an optional sign, then digits only).
\<close>

fun leadingInt :: "int \<Rightarrow> string \<Rightarrow> (int \<times> string) option" where
  "leadingInt x [] = Some (x, [])"
| "leadingInt x (c # s) =
    (if \<not> digit_byte c then Some (x, c # s)
     else if x > 2 ^ 63 div 10 then None
     else if x * 10 + int (digit_val c) > 2 ^ 63 then None
     else leadingInt (x * 10 + int (digit_val c)) s)"

definition atoi :: "string \<Rightarrow> int option" where
  "atoi s0 =
    (let neg = (s0 \<noteq> [] \<and> hd s0 = CHR ''-'');
         s = (if s0 \<noteq> [] \<and> (hd s0 = CHR ''-'' \<or> hd s0 = CHR ''+'') then tl s0 else s0)
     in case leadingInt 0 s of
          None \<Rightarrow> None
        | Some (q, rem) \<Rightarrow>
            if rem \<noteq> [] then None
            else let x = (if q < 2 ^ 63 then q else q - 2 ^ 64)
                 in Some (if neg then - x else x))"

text \<open>\<^verbatim>\<open>parseNanoseconds(value, nbytes)\<close>: \<open>value\<close> starts with the comma or period.\<close>

definition parseNanoseconds :: "string \<Rightarrow> nat \<Rightarrow> parse_problem + int" where
  "parseNanoseconds value0 nbytes0 =
    (if value0 = [] \<or> \<not> commaOrPeriod (hd value0) then Inl CannotParse
     else
       let val = (if nbytes0 > 10 then take 10 value0 else value0);
           nbytes = (if nbytes0 > 10 then 10 else nbytes0)
       in case atoi (take (nbytes - 1) (drop 1 val)) of
            None \<Rightarrow> Inl CannotParse
          | Some ns \<Rightarrow>
              if ns < 0 then Inl (OutOfRange ''fractional second'')
              else Inr (ns * 10 ^ (10 - nbytes)))"

definition isLeap :: "int \<Rightarrow> bool" where
  "isLeap y = (y mod 4 = 0 \<and> (y mod 100 \<noteq> 0 \<or> y mod 400 = 0))"

definition daysIn :: "int \<Rightarrow> int \<Rightarrow> int" where
  "daysIn m y =
    (if m = 2 then (if isLeap y then 29 else 28)
     else if m = 4 \<or> m = 6 \<or> m = 9 \<or> m = 11 then 30 else 31)"

text \<open>
  A fractional second in the value after the seconds field, which the layout does not
  have: the digits are read as nanoseconds and dropped from the value.
\<close>

definition fractional_second :: "string \<Rightarrow> parse_problem + (int \<times> string)" where
  "fractional_second val =
    (if length val \<ge> 2 \<and> commaOrPeriod (val ! 0) \<and> isDigit val 1 then
       (let n = 2 + length (takeWhile digit_byte (drop 2 val))
        in case parseNanoseconds val n of
             Inl e \<Rightarrow> Inl e
           | Inr nsec \<Rightarrow> Inr (nsec, drop n val))
     else Inr (0, val))"

text \<open>
  Results of the parser's steps: \<open>None\<close> of a helper is \<^verbatim>\<open>errBad\<close>; a step that
  fails ends the parse with its problem.
\<close>

definition or_bad :: "'a option \<Rightarrow> parse_problem + 'a" where
  "or_bad r = (case r of None \<Rightarrow> Inl CannotParse | Some a \<Rightarrow> Inr a)"

definition and_then :: "'e + 'a \<Rightarrow> ('a \<Rightarrow> 'e + 'b) \<Rightarrow> 'e + 'b" where
  "and_then r f = (case r of Inl e \<Rightarrow> Inl e | Inr a \<Rightarrow> f a)"

definition in_range :: "bool \<Rightarrow> string \<Rightarrow> 'a \<Rightarrow> parse_problem + 'a" where
  "in_range bad what a = (if bad then Inl (OutOfRange what) else Inr a)"

definition std_LongYear :: "string \<Rightarrow> parse_problem + (int \<times> string)" where
  "std_LongYear val =
    (if length val < 4 \<or> \<not> isDigit val 0 then Inl CannotParse
     else and_then (or_bad (atoi (take 4 val))) (\<lambda>yr. Inr (yr, drop 4 val)))"

definition std_ZeroMonth :: "string \<Rightarrow> parse_problem + (int \<times> string)" where
  "std_ZeroMonth val =
    and_then (or_bad (getnum val True))
      (\<lambda>(mon, v). in_range (mon \<le> 0 \<or> 12 < mon) ''month'' (mon, v))"

definition std_ZeroDay :: "string \<Rightarrow> parse_problem + (int \<times> string)" where
  "std_ZeroDay val = or_bad (getnum val True)"

definition std_Hour :: "string \<Rightarrow> parse_problem + (int \<times> string)" where
  "std_Hour val =
    and_then (or_bad (getnum val False))
      (\<lambda>(hr, v). in_range (hr < 0 \<or> 24 \<le> hr) ''hour'' (hr, v))"

definition std_ZeroMinute :: "string \<Rightarrow> parse_problem + (int \<times> string)" where
  "std_ZeroMinute val =
    and_then (or_bad (getnum val True))
      (\<lambda>(mi, v). in_range (mi < 0 \<or> 60 \<le> mi) ''minute'' (mi, v))"

definition std_ZeroSecond :: "string \<Rightarrow> parse_problem + ((int \<times> int) \<times> string)" where
  "std_ZeroSecond val =
    and_then (or_bad (getnum val True))
      (\<lambda>(sc, v). and_then (in_range (sc < 0 \<or> 60 \<le> sc) ''second'' (sc, v))
         (\<lambda>(sc, v). and_then (fractional_second v) (\<lambda>(nsec, v'). Inr ((sc, nsec), v'))))"

text \<open>
  \<^verbatim>\<open>time.Parse("2006-01-02 15:04:05", value)\<close>, chunk by chunk of the layout: the year
  (four digits), \<open>-\<close>, the month (two digits, 1 to 12), \<open>-\<close>, the day (two digits),
  spaces, the hour (one or two digits, below 24), \<open>:\<close>, the minute and \<open>:\<close>, the second
  (two digits each, below 60), an optional fractional second, nothing more; then the day
  is checked against the month's length.
\<close>

definition parse_layout :: "string \<Rightarrow> parse_problem + Time" where
  "parse_layout value0 =
    and_then (std_LongYear value0) (\<lambda>(yr, v).
    and_then (or_bad (skip v ''-'')) (\<lambda>v.
    and_then (std_ZeroMonth v) (\<lambda>(mon, v).
    and_then (or_bad (skip v ''-'')) (\<lambda>v.
    and_then (std_ZeroDay v) (\<lambda>(dy, v).
    and_then (or_bad (skip v '' '')) (\<lambda>v.
    and_then (std_Hour v) (\<lambda>(hr, v).
    and_then (or_bad (skip v '':'')) (\<lambda>v.
    and_then (std_ZeroMinute v) (\<lambda>(mi, v).
    and_then (or_bad (skip v '':'')) (\<lambda>v.
    and_then (std_ZeroSecond v) (\<lambda>((sc, nsec), v).
      if v \<noteq> [] then Inl (ExtraText v)
      else if dy < 1 \<or> dy > daysIn mon yr then Inl (OutOfRange ''day'')
      else Inr \<lparr>year = yr, month = mon, day = dy, hour = hr, minute = mi, second = sc,
                nanosecond = nsec\<rparr>)))))))))))"

definition time_Parse :: "string \<Rightarrow> ParseError + Time" where
  "time_Parse val =
    (case parse_layout val of Inl p \<Rightarrow> Inl (ParseError val p) | Inr t \<Rightarrow> Inr t)"

subsection \<open>Instants, Time.After and Time.Before, Time.Format\<close>

text \<open>
  The instant of a parsed time, in nanoseconds since 1970-01-01 00:00:00 UTC (the
  proleptic Gregorian calendar, as Go's \<^verbatim>\<open>Date\<close>). \<^verbatim>\<open>t.After(u)\<close> and
  \<^verbatim>\<open>t.Before(u)\<close> compare instants; a parsed time carries no monotonic clock reading,
  so the comparison with \<^verbatim>\<open>time.Now()\<close> is on the wall clock.
\<close>

definition days_before_year :: "int \<Rightarrow> int" where
  "days_before_year y = 365 * y + (y + 3) div 4 - (y + 99) div 100 + (y + 399) div 400"

definition days_before_month :: "int \<Rightarrow> int \<Rightarrow> int" where
  "days_before_month m y =
    ([0, 31, 59, 90, 120, 151, 181, 212, 243, 273, 304, 334] ! nat (m - 1))
    + (if isLeap y \<and> m > 2 then 1 else 0)"

definition instant :: "Time \<Rightarrow> int" where
  "instant t =
    ((((days_before_year (year t) + days_before_month (month t) (year t) + (day t - 1)
        - 719528) * 24 + hour t) * 60 + minute t) * 60 + second t) * 1000000000
    + nanosecond t"

definition After :: "int \<Rightarrow> Time \<Rightarrow> bool" where
  "After now u = (now > instant u)"

definition Before :: "int \<Rightarrow> Time \<Rightarrow> bool" where
  "Before now u = (now < instant u)"

fun show_nat :: "nat \<Rightarrow> string" where
  "show_nat n =
    (if n < 10 then [''0123456789'' ! n]
     else show_nat (n div 10) @ [''0123456789'' ! (n mod 10)])"

definition appendInt :: "int \<Rightarrow> nat \<Rightarrow> string" where
  "appendInt x width =
    (let ds = show_nat (nat \<bar>x\<bar>)
     in (if x < 0 then ''-'' else '''') @ replicate (width - length ds) CHR ''0'' @ ds)"

definition Format :: "Time \<Rightarrow> string" where
  "Format t =
    appendInt (year t) 4 @ ''-'' @ appendInt (month t) 2 @ ''-'' @ appendInt (day t) 2 @ '' ''
    @ appendInt (hour t) 2 @ '':'' @ appendInt (minute t) 2 @ '':'' @ appendInt (second t) 2"

subsection \<open>float64 division, fmt.Sprintf\<close>

text \<open>
  A float64 operation returns the exact result rounded to the nearest binary64 number,
  ties to even (53 significant bits, least exponent -1022). Overflow to an infinity is
  not in this model: the only float operation of the program divides a finite number by
  1000.
\<close>

definition round_half_even :: "real \<Rightarrow> int" where
  "round_half_even x =
    (if frac x = 1 / 2 then (if even \<lfloor>x\<rfloor> then \<lfloor>x\<rfloor> else \<lceil>x\<rceil>) else round x)"

definition float64_round :: "real \<Rightarrow> real" where
  "float64_round x =
    (if x = 0 then 0
     else let e = max \<lfloor>log 2 \<bar>x\<bar>\<rfloor> (- 1022);
              ulp = 2 powr real_of_int (e - 52)
          in real_of_int (round_half_even (x / ulp)) * ulp)"

definition float64_div :: "real \<Rightarrow> real \<Rightarrow> real" where
  "float64_div x y = float64_round (x / y)"

text \<open>\<^verbatim>\<open>%d\<close> of an int and \<^verbatim>\<open>%.0f\<close> of a float64 (rounded to an integer, ties to even).\<close>

definition Sprintf_d :: "int \<Rightarrow> string" where
  "Sprintf_d x = (if x < 0 then ''-'' else []) @ show_nat (nat \<bar>x\<bar>)"

definition Sprintf_f0 :: "real \<Rightarrow> string" where
  "Sprintf_f0 x = (if x < 0 then ''-'' else []) @ show_nat (nat (round_half_even \<bar>x\<bar>))"

section \<open>The program\<close>

subsection \<open>Errors, upstream replies, the environment of one request\<close>

text \<open>
  One constructor for each \<^verbatim>\<open>fmt.Errorf\<close> of the source, with the cause that its
  message prints. The specification calls \<open>Top1000LessThan1000\<close> the ShortRanking
  error, \<open>NoSeasonDataAvailable\<close> the NoActiveSeason error, and the two parse failures
  MalformedTimestamp. (\<^verbatim>\<open>http.NewRequest\<close> cannot fail on the literal method and URL
  of the source, so "failed to create request" has no constructor.)
\<close>

datatype error =
    FailedToExecuteRequest
  | FailedToFetchData nat
  | FailedToDecodeResponse
  | FailedToParseStartTime ParseError
  | FailedToParseEndTime ParseError
  | FailedToFetchTop1000
  | FailedToFetchTop1000Status nat
  | FailedToDecodeRankingData
  | Top1000LessThan1000
  | NoSeasonDataAvailable

text \<open>
  What an upstream call returns: the transport fails, or a response arrives with its
  status code and its body as \<^verbatim>\<open>json.Decode\<close> reads it (\<open>None\<close>: the decoder fails).
\<close>

datatype 'a reply = TransportFailure | Reply nat "'a option"

datatype upstream_call = CatalogPOST | RankingGET string

text \<open>
  Everything outside the handler that one request depends on: the two upstream
  endpoints, the clock, the order in which each of the two \<^verbatim>\<open>range\<close> loops visits the
  catalog, and whether \<^verbatim>\<open>Encode\<close> reports an error.
\<close>

record env =
  catalog_reply :: "SeasonList reply"
  ranking_reply :: "string \<Rightarrow> RankResponseRawData list reply"
  time_Now :: int
  fetch_order :: "season_map \<Rightarrow> season_map"
  select_order :: "season_map \<Rightarrow> season_map"
  encode_error :: bool

subsection \<open>fetchRankingData\<close>

text \<open>
  The variables of the function that matter after the decoder has run: the decoded
  \<^verbatim>\<open>seasonList\<close> and the loop variable \<^verbatim>\<open>seasonData\<close>, which \<^verbatim>\<open>range\<close> sets to a
  copy of the map's value at each iteration. The assignments of lines 91 and 92 write
  to that variable.
\<close>

record fetch_vars =
  seasonList_var :: SeasonList
  seasonData_var :: SeasonData

definition zero_SeasonData :: SeasonData where
  "zero_SeasonData =
    \<lparr>CID = [], Cnt = 0, End = [], Name = [], RankCnt = 0, Rst = 0, Rule = 0, Season = 0,
     Start = [], Ts1 = 0, Ts2 = 0\<rparr>"

fun fetch_season_loop :: "(string \<times> SeasonData) list \<Rightarrow> fetch_vars \<Rightarrow> error + fetch_vars" where
  "fetch_season_loop [] vars = Inr vars"
| "fetch_season_loop ((k, v) # rest) vars0 =
    (let vars = vars0\<lparr>seasonData_var := v\<rparr>;
         startDate = strings_Replace_slash (Start (seasonData_var vars)) @ '':00''
     in case time_Parse startDate of
          Inl err \<Rightarrow> Inl (FailedToParseStartTime err)
        | Inr start \<Rightarrow>
            (let endDate = strings_Replace_slash (End (seasonData_var vars)) @ '':00''
             in case time_Parse endDate of
                  Inl err \<Rightarrow> Inl (FailedToParseEndTime err)
                | Inr end_t \<Rightarrow>
                    (let vars1 = vars\<lparr>seasonData_var := (seasonData_var vars)\<lparr>Start := Format start\<rparr>\<rparr>;
                         vars2 = vars1\<lparr>seasonData_var := (seasonData_var vars1)\<lparr>End := Format end_t\<rparr>\<rparr>
                     in fetch_season_loop rest vars2)))"

fun fetch_seasons_loop :: "season_map \<Rightarrow> fetch_vars \<Rightarrow> error + fetch_vars" where
  "fetch_seasons_loop [] vars = Inr vars"
| "fetch_seasons_loop ((k, season) # rest) vars =
    (case fetch_season_loop season vars of
       Inl err \<Rightarrow> Inl err
     | Inr vars' \<Rightarrow> fetch_seasons_loop rest vars')"

definition fetchRankingData :: "env \<Rightarrow> upstream_call list \<times> (error + SeasonList)" where
  "fetchRankingData env =
    ([CatalogPOST],
     case catalog_reply env of
       TransportFailure \<Rightarrow> Inl FailedToExecuteRequest
     | Reply code body \<Rightarrow>
         if code \<noteq> 200 then Inl (FailedToFetchData code)
         else (case body of
                 None \<Rightarrow> Inl FailedToDecodeResponse
               | Some decoded \<Rightarrow>
                   (case fetch_seasons_loop (fetch_order env (Seasons decoded))
                           \<lparr>seasonList_var = decoded, seasonData_var = zero_SeasonData\<rparr> of
                      Inl err \<Rightarrow> Inl err
                    | Inr vars \<Rightarrow> Inr (seasonList_var vars))))"

subsection \<open>convertRawDataToResponse and fetchTop1000RankingData\<close>

definition zero_RankResponseRawData :: RankResponseRawData where
  "zero_RankResponseRawData = \<lparr>Rank = 0, RatingValue = 0, Icon = [], RName = [], Lng = []\<rparr>"

text \<open>The fixed prefix of the format string of line 130.\<close>

definition icon_base :: string where
  "icon_base = ''https://resource.pokemon-home.com/battledata/img/icons/trainer/''"

text \<open>The loop of lines 129 to 136, writing the fields of \<^verbatim>\<open>result[i]\<close> one by one.\<close>

fun convert_loop ::
  "RankResponseRawData list \<Rightarrow> nat \<Rightarrow> RankResponseRawData list \<Rightarrow> RankResponseRawData list"
where
  "convert_loop [] i result = result"
| "convert_loop (data # rest) i result =
    (let iconURL = icon_base @ Icon data;
         result1 = result[i := (result ! i)\<lparr>Icon := iconURL\<rparr>];
         result2 = result1[i := (result1 ! i)\<lparr>RatingValue := float64_div (RatingValue data) 1000\<rparr>];
         result3 = result2[i := (result2 ! i)\<lparr>Rank := Rank data\<rparr>];
         result4 = result3[i := (result3 ! i)\<lparr>RName := RName data\<rparr>];
         result5 = result4[i := (result4 ! i)\<lparr>Lng := Lng data\<rparr>]
     in convert_loop rest (Suc i) result5)"

definition convertRawDataToResponse :: "RankResponseRawData list \<Rightarrow> RankResponseRawData list" where
  "convertRawDataToResponse rawData =
    convert_loop rawData 0 (replicate (length rawData) zero_RankResponseRawData)"

definition rankingURL :: "string \<Rightarrow> int \<Rightarrow> string \<Rightarrow> string" where
  "rankingURL cId rst ts1 =
    ''https://resource.pokemon-home.com/battledata/ranking/scvi/'' @ cId @ ''/'' @ Sprintf_d rst
    @ ''/'' @ ts1 @ ''/traner-1''"

definition fetchTop1000RankingData ::
  "env \<Rightarrow> string \<Rightarrow> int \<Rightarrow> string \<Rightarrow> upstream_call list \<times> (error + RankResponseRawData list)"
where
  "fetchTop1000RankingData env cId rst ts1 =
    ([RankingGET (rankingURL cId rst ts1)],
     case ranking_reply env (rankingURL cId rst ts1) of
       TransportFailure \<Rightarrow> Inl FailedToFetchTop1000
     | Reply code body \<Rightarrow>
         if code \<noteq> 200 then Inl (FailedToFetchTop1000Status code)
         else (case body of
                 None \<Rightarrow> Inl FailedToDecodeRankingData
               | Some rankingData \<Rightarrow>
                   if length rankingData < 1000 then Inl Top1000LessThan1000
                   else Inr (convertRawDataToResponse rankingData)))"

subsection \<open>getLatestSeasonData\<close>

text \<open>
  The two nested loops of lines 192 to 208; \<open>Some\<close> is a \<^verbatim>\<open>return\<close> inside the
  loop, \<open>None\<close> is the loop running to its end. \<open>now\<close> is the instant \<^verbatim>\<open>time.Now()\<close>
  returned at line 190, in nanoseconds since 1970-01-01 00:00:00 UTC.
\<close>

fun latest_season_loop :: "int \<Rightarrow> (string \<times> SeasonData) list \<Rightarrow> (error + SeasonData) option" where
  "latest_season_loop now [] = None"
| "latest_season_loop now ((k, v) # rest) =
    (let seasonData1 = v\<lparr>Start := strings_Replace_slash (Start v) @ '':00''\<rparr>
     in case time_Parse (Start seasonData1) of
          Inl err \<Rightarrow> Some (Inl (FailedToParseStartTime err))
        | Inr start \<Rightarrow>
            (let seasonData2 = seasonData1\<lparr>End := strings_Replace_slash (End seasonData1) @ '':00''\<rparr>
             in case time_Parse (End seasonData2) of
                  Inl err \<Rightarrow> Some (Inl (FailedToParseEndTime err))
                | Inr end_t \<Rightarrow>
                    if After now start \<and> Before now end_t then Some (Inr seasonData2)
                    else latest_season_loop now rest))"

fun latest_seasons_loop :: "int \<Rightarrow> season_map \<Rightarrow> (error + SeasonData) option" where
  "latest_seasons_loop now [] = None"
| "latest_seasons_loop now ((k, season) # rest) =
    (case latest_season_loop now season of
       Some r \<Rightarrow> Some r
     | None \<Rightarrow> latest_seasons_loop now rest)"

definition getLatestSeasonData :: "int \<Rightarrow> season_map \<Rightarrow> error + SeasonData" where
  "getLatestSeasonData now seasons =
    (case latest_seasons_loop now seasons of
       Some r \<Rightarrow> r
     | None \<Rightarrow> Inl NoSeasonDataAvailable)"

subsection \<open>RankingHandler\<close>

record request =
  Method :: string

datatype body = NoBody | ErrorText string "error option" | JsonBody RankingResponse

text \<open>
  The \<^verbatim>\<open>http.ResponseWriter\<close>: the header map, and the status and body once written
  (status 0: nothing written yet).
\<close>

record ResponseWriter =
  Header :: "string \<rightharpoonup> string"
  Status :: nat
  Body :: body

text \<open>
  \<^verbatim>\<open>http.Error(w, msg, code)\<close> removes Content-Length, sets Content-Type to
  \<^verbatim>\<open>text/plain; charset=utf-8\<close> and X-Content-Type-Options to \<^verbatim>\<open>nosniff\<close>, writes
  the status code and then the message; \<open>cause\<close> is the error that \<^verbatim>\<open>%v\<close> prints at
  the end of the message.
\<close>

definition http_Error :: "ResponseWriter \<Rightarrow> string \<Rightarrow> error option \<Rightarrow> nat \<Rightarrow> ResponseWriter" where
  "http_Error w msg cause code =
    w\<lparr>Header := ((Header w)(''Content-Length'' := None))
                   (''Content-Type'' \<mapsto> ''text/plain; charset=utf-8'',
                    ''X-Content-Type-Options'' \<mapsto> ''nosniff''),
      Status := code,
      Body := ErrorText msg cause\<rparr>"

text \<open>
  \<^verbatim>\<open>json.NewEncoder(w).Encode(v)\<close>: the first write sends status 200 with the headers
  as they are.
\<close>

definition Encode :: "ResponseWriter \<Rightarrow> RankingResponse \<Rightarrow> ResponseWriter" where
  "Encode w v = w\<lparr>Status := 200, Body := JsonBody v\<rparr>"

definition RankingHandler :: "env \<Rightarrow> request \<Rightarrow> ResponseWriter \<times> upstream_call list" where
  "RankingHandler env r =
    (let w0 = \<lparr>Header = Map.empty, Status = 0, Body = NoBody\<rparr>;
         w1 = w0\<lparr>Header := (Header w0)(''Access-Control-Allow-Origin'' \<mapsto> ''*'')\<rparr>;
         w = w1\<lparr>Header := (Header w1)(''Content-Type'' \<mapsto> ''application/json'')\<rparr>
     in if Method r \<noteq> ''GET'' then (http_Error w ''Method not allowed'' None 405, [])
        else
          let (calls1, fetched) = fetchRankingData env
          in case fetched of
               Inl err \<Rightarrow> (http_Error w ''Error fetching ranking data: '' (Some err) 500, calls1)
             | Inr seasonList \<Rightarrow>
                 (case getLatestSeasonData (time_Now env) (select_order env (Seasons seasonList)) of
                    Inl err \<Rightarrow>
                      (http_Error w ''Error fetching latest season data: '' (Some err) 500, calls1)
                  | Inr latestSeasonData \<Rightarrow>
                      (let (calls2, top) =
                             fetchTop1000RankingData env (CID latestSeasonData)
                               (Rst latestSeasonData) (Sprintf_f0 (Ts1 latestSeasonData))
                       in case top of
                            Inl err \<Rightarrow>
                              (http_Error w ''Error fetching top 1000 ranking data: '' (Some err) 500,
                               calls1 @ calls2)
                          | Inr top1000Data \<Rightarrow>
                              (let responseData =
                                     \<lparr>SeasonData_of = latestSeasonData, Top1000 = top1000Data\<rparr>
                               in if encode_error env then
                                    (http_Error w ''Failed to encode response: '' None 500,
                                     calls1 @ calls2)
                                  else (Encode w responseData, calls1 @ calls2)))))"

section \<open>Notions of the specification\<close>

text \<open>
  The records of a catalog in the order a loop visits them; the record as line 205
  returns it (its two date strings rewritten by lines 194 and 199); the time window of a
  record, when both of its dates parse.
\<close>

definition records :: "season_map \<Rightarrow> SeasonData list" where
  "records seasons = concat (map (\<lambda>(k, season). map snd season) seasons)"

definition normalized :: "string \<Rightarrow> string" where
  "normalized s = strings_Replace_slash s @ '':00''"

definition rewritten :: "SeasonData \<Rightarrow> SeasonData" where
  "rewritten r = r\<lparr>Start := normalized (Start r), End := normalized (End r)\<rparr>"

definition window :: "SeasonData \<Rightarrow> (int \<times> int) option" where
  "window r =
    (case time_Parse (normalized (Start r)) of
       Inl err \<Rightarrow> None
     | Inr start \<Rightarrow>
         (case time_Parse (normalized (End r)) of
            Inl err \<Rightarrow> None
          | Inr end_t \<Rightarrow> Some (instant start, instant end_t)))"

definition active :: "int \<Rightarrow> SeasonData \<Rightarrow> bool" where
  "active now r = (case window r of None \<Rightarrow> False | Some (s, e) \<Rightarrow> s < now \<and> now < e)"

definition all_dates_parse :: "season_map \<Rightarrow> bool" where
  "all_dates_parse seasons = list_all (\<lambda>r. window r \<noteq> None) (records seasons)"

text \<open>Two windows overlap when some instant lies strictly inside both.\<close>

definition overlaps :: "SeasonData \<Rightarrow> SeasonData \<Rightarrow> bool" where
  "overlaps r r' =
    (case (window r, window r') of
       (Some (s, e), Some (s', e')) \<Rightarrow> max s s' < min e e'
     | _ \<Rightarrow> False)"

fun pairwise_disjoint :: "SeasonData list \<Rightarrow> bool" where
  "pairwise_disjoint [] = True"
| "pairwise_disjoint (r # rs) = (list_all (\<lambda>r'. \<not> overlaps r r') rs \<and> pairwise_disjoint rs)"

definition windows_disjoint :: "season_map \<Rightarrow> bool" where
  "windows_disjoint seasons = pairwise_disjoint (records seasons)"

text \<open>
  Two visiting orders of one two-level map: the same groups, each with the same entries,
  listed in any order.
\<close>

definition same_catalog :: "season_map \<Rightarrow> season_map \<Rightarrow> bool" where
  "same_catalog c1 c2 =
    (mset (map (\<lambda>(k, season). (k, mset season)) c1)
     = mset (map (\<lambda>(k, season). (k, mset season)) c2))"

text \<open>The ranking row the specification describes for a raw row.\<close>

definition converted :: "RankResponseRawData \<Rightarrow> RankResponseRawData" where
  "converted data =
    \<lparr>Rank = Rank data, RatingValue = float64_div (RatingValue data) 1000,
     Icon = icon_base @ Icon data, RName = RName data, Lng = Lng data\<rparr>"

text \<open>What a response carries in its body: the ranking entries and the season record.\<close>

definition response_entries :: "ResponseWriter \<Rightarrow> RankResponseRawData list" where
  "response_entries w = (case Body w of JsonBody v \<Rightarrow> Top1000 v | _ \<Rightarrow> [])"

definition response_season :: "ResponseWriter \<Rightarrow> SeasonData option" where
  "response_season w = (case Body w of JsonBody v \<Rightarrow> Some (SeasonData_of v) | _ \<Rightarrow> None)"

text \<open>
  The upstream's date strings: a date and a time of day without seconds, the date
  written with the separator \<open>sep\<close>.
\<close>

definition digit_char :: "int \<Rightarrow> char" where
  "digit_char n = ''0123456789'' ! nat n"

definition digits2 :: "int \<Rightarrow> string" where
  "digits2 n = [digit_char (n div 10), digit_char (n mod 10)]"

definition digits4 :: "int \<Rightarrow> string" where
  "digits4 n =
    [digit_char (n div 1000), digit_char (n div 100 mod 10), digit_char (n div 10 mod 10),
     digit_char (n mod 10)]"

definition date_string :: "char \<Rightarrow> int \<Rightarrow> int \<Rightarrow> int \<Rightarrow> int \<Rightarrow> int \<Rightarrow> string" where
  "date_string sep y m d h mi =
    digits4 y @ [sep] @ digits2 m @ [sep] @ digits2 d @ '' '' @ digits2 h @ '':'' @ digits2 mi"

definition valid_date :: "int \<Rightarrow> int \<Rightarrow> int \<Rightarrow> int \<Rightarrow> int \<Rightarrow> bool" where
  "valid_date y m d h mi =
    (0 \<le> y \<and> y \<le> 9999 \<and> 1 \<le> m \<and> m \<le> 12 \<and> 1 \<le> d \<and> d \<le> daysIn m y
     \<and> 0 \<le> h \<and> h < 24 \<and> 0 \<le> mi \<and> mi < 60)"

subsection \<open>fetchRankingData without the assignments of lines 91 and 92\<close>

text \<open>
  The function of the source with the two assignments to \<^verbatim>\<open>seasonData.Start\<close> and
  \<^verbatim>\<open>seasonData.End\<close> removed: its loops only parse the dates.
\<close>

fun validate_season_loop :: "(string \<times> SeasonData) list \<Rightarrow> fetch_vars \<Rightarrow> error + fetch_vars" where
  "validate_season_loop [] vars = Inr vars"
| "validate_season_loop ((k, v) # rest) vars0 =
    (let vars = vars0\<lparr>seasonData_var := v\<rparr>;
         startDate = strings_Replace_slash (Start (seasonData_var vars)) @ '':00''
     in case time_Parse startDate of
          Inl err \<Rightarrow> Inl (FailedToParseStartTime err)
        | Inr start \<Rightarrow>
            (let endDate = strings_Replace_slash (End (seasonData_var vars)) @ '':00''
             in case time_Parse endDate of
                  Inl err \<Rightarrow> Inl (FailedToParseEndTime err)
                | Inr end_t \<Rightarrow> validate_season_loop rest vars))"

fun validate_seasons_loop :: "season_map \<Rightarrow> fetch_vars \<Rightarrow> error + fetch_vars" where
  "validate_seasons_loop [] vars = Inr vars"
| "validate_seasons_loop ((k, season) # rest) vars =
    (case validate_season_loop season vars of
       Inl err \<Rightarrow> Inl err
     | Inr vars' \<Rightarrow> validate_seasons_loop rest vars')"

definition fetchRankingData_no_rewrite :: "env \<Rightarrow> upstream_call list \<times> (error + SeasonList)" where
  "fetchRankingData_no_rewrite env =
    ([CatalogPOST],
     case catalog_reply env of
       TransportFailure \<Rightarrow> Inl FailedToExecuteRequest
     | Reply code body \<Rightarrow>
         if code \<noteq> 200 then Inl (FailedToFetchData code)
         else (case body of
                 None \<Rightarrow> Inl FailedToDecodeResponse
               | Some decoded \<Rightarrow>
                   (case validate_seasons_loop (fetch_order env (Seasons decoded))
                           \<lparr>seasonList_var = decoded, seasonData_var = zero_SeasonData\<rparr> of
                      Inl err \<Rightarrow> Inl err
                    | Inr vars \<Rightarrow> Inr (seasonList_var vars))))"

text \<open>Two runs of a loop of the function agree on the error or on \<^verbatim>\<open>seasonList\<close>.\<close>

definition same_seasonList :: "error + fetch_vars \<Rightarrow> error + fetch_vars \<Rightarrow> bool" where
  "same_seasonList a b = rel_sum (=) (\<lambda>v v'. seasonList_var v = seasonList_var v') a b"

section \<open>A catalog, a ranking and two requests to run the program on\<close>

definition season14 :: SeasonData where
  "season14 =
    \<lparr>CID = ''10361'', Cnt = 150000, End = ''2024/02/01 08:59'', Name = ''Season 14'',
     RankCnt = 100000, Rst = 0, Rule = 0, Season = 14, Start = ''2024/01/01 09:00'',
     Ts1 = 1704070800, Ts2 = 1704070900\<rparr>"

definition season15 :: SeasonData where
  "season15 =
    \<lparr>CID = ''10371'', Cnt = 120000, End = ''2024/03/01 08:59'', Name = ''Season 15'',
     RankCnt = 90000, Rst = 0, Rule = 0, Season = 15, Start = ''2024/02/01 09:00'',
     Ts1 = 1706749200, Ts2 = 1706749300\<rparr>"

text \<open>A record whose start date does not parse, and one that carries a seconds field.\<close>

definition season_malformed :: SeasonData where
  "season_malformed = season15\<lparr>Start := ''soon''\<rparr>"

definition season_with_seconds :: SeasonData where
  "season_with_seconds = season14\<lparr>Start := ''2024/01/01 09:00:00''\<rparr>"

definition catalog14 :: season_map where
  "catalog14 = [(''114'', [(''10361'', season14)]), (''115'', [(''10371'', season15)])]"

text \<open>The same catalog visited in another order; a catalog with the malformed record, visited
  in two orders.\<close>

definition catalog14_reordered :: season_map where
  "catalog14_reordered = [(''115'', [(''10371'', season15)]), (''114'', [(''10361'', season14)])]"

definition catalog_malformed_last :: season_map where
  "catalog_malformed_last = [(''114'', [(''10361'', season14), (''10371'', season_malformed)])]"

definition catalog_malformed_first :: season_map where
  "catalog_malformed_first = [(''114'', [(''10371'', season_malformed), (''10361'', season14)])]"

text \<open>2024-01-15 10:00:00 UTC, and the start of season 14, 2024-01-01 09:00:00 UTC.\<close>

definition mid_january :: int where
  "mid_january = 1705312800000000000"


definition ash :: RankResponseRawData where
  "ash = \<lparr>Rank = 1, RatingValue = 18230, Icon = ''0001.png'', RName = ''Ash'', Lng = ''ja''\<rparr>"

text \<open>An upstream that serves \<open>catalog14\<close> and a ranking of \<open>n\<close> rows.\<close>

definition upstream :: "nat \<Rightarrow> env" where
  "upstream n =
    \<lparr>catalog_reply = Reply 200 (Some \<lparr>Seasons = catalog14\<rparr>),
     ranking_reply = (\<lambda>url. Reply 200 (Some (replicate n ash))),
     time_Now = mid_january,
     fetch_order = (\<lambda>seasons. seasons),
     select_order = (\<lambda>seasons. seasons),
     encode_error = False\<rparr>"

text \<open>The same upstream with a ranking of \<open>n\<close> rows of ranks 1 to \<open>n\<close>.\<close>

definition ranked_rows :: "nat \<Rightarrow> RankResponseRawData list" where
  "ranked_rows n = map (\<lambda>i. ash\<lparr>Rank := int (Suc i)\<rparr>) [0..<n]"

definition upstream_ranked :: "nat \<Rightarrow> env" where
  "upstream_ranked n = (upstream n)\<lparr>ranking_reply := (\<lambda>url. Reply 200 (Some (ranked_rows n)))\<rparr>"

definition get_request :: request where
  "get_request = \<lparr>Method = ''GET''\<rparr>"

definition post_request :: request where
  "post_request = \<lparr>Method = ''POST''\<rparr>"

section \<open>Properties\<close>

subsection \<open>Evaluating the parser and the examples\<close>

lemmas parse_defs = time_Parse_def parse_layout_def std_LongYear_def std_ZeroMonth_def
  std_ZeroDay_def std_Hour_def std_ZeroMinute_def std_ZeroSecond_def and_then_def or_bad_def
  in_range_def isDigit_def digit_byte_def digit_val_def atoi_def getnum_def cutspace_def
  fractional_second_def commaOrPeriod_def strings_Replace_slash_def daysIn_def isLeap_def
  normalized_def

lemmas instant_defs = instant_def days_before_year_def days_before_month_def isLeap_def

lemma window_season14: "window season14 = Some (1704099600000000000, 1706777940000000000)"
  by (simp add: window_def season14_def parse_defs instant_defs)

lemma window_season15: "window season15 = Some (1706778000000000000, 1709283540000000000)"
  by (simp add: window_def season15_def parse_defs instant_defs)

lemma window_season_malformed: "window season_malformed = None"
  by (simp add: window_def season_malformed_def season15_def parse_defs)

lemma records_catalog14: "records catalog14 = [season14, season15]"
  by (simp add: records_def catalog14_def)

lemma select_mid_january:
  "getLatestSeasonData mid_january catalog14 = Inr (rewritten season14)"
  by (simp add: getLatestSeasonData_def catalog14_def season14_def season15_def rewritten_def
      mid_january_def After_def Before_def parse_defs instant_defs)

lemma fetch_catalog14:
  "fetchRankingData (upstream n) = ([CatalogPOST], Inr \<lparr>Seasons = catalog14\<rparr>)"
  by (simp add: fetchRankingData_def upstream_def catalog14_def season14_def season15_def
      parse_defs)

lemma upstream_fields:
  "ranking_reply (upstream n) url = Reply 200 (Some (replicate n ash))"
  "time_Now (upstream n) = mid_january"
  "select_order (upstream n) seasons = seasons"
  "encode_error (upstream n) = False"
  by (simp_all add: upstream_def)

subsection \<open>convertRawDataToResponse and fetchTop1000RankingData\<close>

lemma all_fields_written:
  "(r :: RankResponseRawData)\<lparr>Icon := a, RatingValue := b, Rank := c, RName := d, Lng := e\<rparr>
   = \<lparr>Rank = c, RatingValue = b, Icon = a, RName = d, Lng = e\<rparr>"
  by (cases r) simp

lemma convert_loop_eq:
  "i + length xs \<le> length result \<Longrightarrow>
   convert_loop xs i result = take i result @ map converted xs @ drop (i + length xs) result"
proof (induction xs arbitrary: i result)
  case Nil
  then show ?case by simp
next
  case (Cons data rest)
  let ?r = "result[i := converted data]"
  from Cons.prems have i: "i < length result" by simp
  have step: "convert_loop (data # rest) i result = convert_loop rest (Suc i) ?r"
    using i by (simp add: Let_def converted_def all_fields_written)
  have "Suc i + length rest \<le> length ?r" using Cons.prems by simp
  from Cons.IH[OF this]
  have "convert_loop rest (Suc i) ?r
        = take (Suc i) ?r @ map converted rest @ drop (Suc i + length rest) ?r" .
  moreover have "take (Suc i) ?r = take i result @ [converted data]"
    using i by (simp add: take_Suc_conv_app_nth)
  moreover have "drop (Suc i + length rest) ?r = drop (i + length (data # rest)) result"
    by simp
  ultimately show ?case using step by simp
qed

lemma convertRawDataToResponse_map: "convertRawDataToResponse rawData = map converted rawData"
  by (simp add: convertRawDataToResponse_def convert_loop_eq)

lemma round_half_even_near: "\<bar>real_of_int (round_half_even x) - x\<bar> \<le> 1 / 2"
proof (cases "frac x = 1 / 2")
  case True
  then have x: "x = real_of_int \<lfloor>x\<rfloor> + 1 / 2" by (simp add: frac_def)
  then have "\<lceil>x\<rceil> = \<lfloor>x\<rfloor> + 1" by (simp add: ceiling_altdef True)
  with True x show ?thesis by (simp add: round_half_even_def)
next
  case False
  then show ?thesis
    using of_int_round_abs_le[of x] by (simp add: round_half_even_def)
qed

lemma floor_log2_1823: "\<lfloor>log 2 (1823 / 100 :: real)\<rfloor> = 4"
proof -
  have "(2::real) powr 4 \<le> 1823 / 100" by simp
  then have a: "4 \<le> log 2 (1823 / 100 :: real)" by (simp add: le_log_iff)
  have "(1823 / 100 :: real) < 2 powr 5" by simp
  then have b: "log 2 (1823 / 100 :: real) < 5" by (simp add: log_less_iff)
  show ?thesis using a b by (simp add: floor_eq_iff)
qed

lemma scaled_near:
  assumes "0 < (u::real)" and "\<bar>a - x / u\<bar> \<le> 1 / 2"
  shows "\<bar>a * u - x\<bar> \<le> u / 2"
proof -
  have "a * u - x = (a - x / u) * u" using assms(1) by (simp add: field_simps)
  then have "\<bar>a * u - x\<bar> = \<bar>a - x / u\<bar> * u" using assms(1) by (simp add: abs_mult)
  also have "\<dots> \<le> 1 / 2 * u" using assms by (intro mult_right_mono) simp_all
  finally show ?thesis by simp
qed

lemma float64_1823: "\<bar>float64_round (1823 / 100) - 1823 / 100\<bar> \<le> 1 / 2 ^ 49"
proof -
  let ?u = "(2::real) powr real_of_int (- 48)"
  have u: "?u = 1 / 2 ^ 48" by (simp add: powr_minus_divide)
  have f: "float64_round (1823 / 100)
           = real_of_int (round_half_even (1823 / 100 / ?u)) * ?u"
    by (simp add: float64_round_def floor_log2_1823 Let_def)
  have "\<bar>real_of_int (round_half_even (1823 / 100 / ?u)) * ?u - 1823 / 100\<bar> \<le> ?u / 2"
  proof (rule scaled_near)
    show "0 < ?u" by simp
    show "\<bar>real_of_int (round_half_even (1823 / 100 / ?u)) - 1823 / 100 / ?u\<bar> \<le> 1 / 2"
      by (rule round_half_even_near)
  qed
  then show ?thesis unfolding f u by simp
qed

lemma float64_round_ulp:
  assumes "x \<noteq> 0"
  shows "\<bar>float64_round x - x\<bar>
         \<le> 2 powr real_of_int (max \<lfloor>log 2 \<bar>x\<bar>\<rfloor> (- 1022) - 52) / 2"
proof -
  let ?u = "(2::real) powr real_of_int (max \<lfloor>log 2 \<bar>x\<bar>\<rfloor> (- 1022) - 52)"
  have f: "float64_round x = real_of_int (round_half_even (x / ?u)) * ?u"
    using assms by (simp add: float64_round_def Let_def)
  have "\<bar>real_of_int (round_half_even (x / ?u)) * ?u - x\<bar> \<le> ?u / 2"
  proof (rule scaled_near)
    show "0 < ?u" by simp
    show "\<bar>real_of_int (round_half_even (x / ?u)) - x / ?u\<bar> \<le> 1 / 2"
      by (rule round_half_even_near)
  qed
  then show ?thesis unfolding f .
qed

lemma float64_round_error:
  "\<bar>float64_round x - x\<bar> \<le> max (\<bar>x\<bar> / 2 ^ 53) (2 powr (- 1075))"
proof (cases "x = 0")
  case True
  then show ?thesis by (simp add: float64_round_def)
next
  case False
  let ?l = "\<lfloor>log 2 \<bar>x\<bar>\<rfloor>"
  note b = float64_round_ulp[OF False]
  show ?thesis
  proof (cases "- 1022 \<le> ?l")
    case True
    then have m: "max ?l (- 1022) = ?l" by simp
    have p: "2 powr real_of_int ?l \<le> \<bar>x\<bar>"
    proof -
      have "0 < \<bar>x\<bar>" using \<open>x \<noteq> 0\<close> by simp
      from le_log_iff[OF _ this, of 2 "real_of_int ?l"] show ?thesis by simp
    qed
    have "2 powr real_of_int (?l - 52) / 2 = 2 powr real_of_int ?l / 2 ^ 53"
      by (simp add: powr_diff)
    also have "\<dots> \<le> \<bar>x\<bar> / 2 ^ 53" using p by (simp add: divide_right_mono)
    finally have q: "2 powr real_of_int (?l - 52) / 2 \<le> \<bar>x\<bar> / 2 ^ 53" .
    have "\<bar>float64_round x - x\<bar> \<le> 2 powr real_of_int (?l - 52) / 2"
      using b unfolding m .
    also note q
    also have "\<bar>x\<bar> / 2 ^ 53 \<le> max (\<bar>x\<bar> / 2 ^ 53) (2 powr (- 1075))"
      by (rule max.cobounded1)
    finally show ?thesis .
  next
    case False
    then have m: "max ?l (- 1022) = - 1022" by simp
    have q: "(2::real) powr real_of_int (- 1022 - 52) / 2 = 2 powr (- 1075)"
      by (simp add: powr_minus_divide)
    have "\<bar>float64_round x - x\<bar> \<le> 2 powr real_of_int (- 1022 - 52) / 2"
      using b unfolding m .
    also note q
    also have "2 powr (- 1075) \<le> max (\<bar>x\<bar> / 2 ^ 53) (2 powr (- 1075))"
      by (rule max.cobounded2)
    finally show ?thesis .
  qed
qed

text \<open>
  Claim C2. The transformation maps every raw row to the row with the same rank, name
  and lng, with the icon file name behind the fixed base path, and with the rating
  divided by 1000: the new rating is the quotient \<open>rating / 1000\<close> rounded to a float64,
  so it differs from the quotient by at most the \<open>2\<^sup>5\<^sup>3\<close>-th part of it (or by
  \<open>2 powr (- 1075)\<close>, for a quotient below the normal range). The row of the
  specification, \<^verbatim>\<open>{rank:1, rating_value:18230, icon:"0001.png", name:"Ash", lng:"ja"}\<close>,
  becomes the row with the icon URL
  \<^verbatim>\<open>https://resource.pokemon-home.com/battledata/img/icons/trainer/0001.png\<close> and the
  rating 18.23, that is the float64 which the decimal 18.23 denotes (it differs from
  18.23 by at most \<open>1 / 2 ^ 49\<close>).
\<close>

theorem C2_row_transformation:
  "convertRawDataToResponse rawData =
     map (\<lambda>data. \<lparr>Rank = Rank data, RatingValue = float64_round (RatingValue data / 1000),
                  Icon = ''https://resource.pokemon-home.com/battledata/img/icons/trainer/''
                         @ Icon data,
                  RName = RName data, Lng = Lng data\<rparr>) rawData
   \<and> (\<forall>i<length rawData.
         \<bar>RatingValue (convertRawDataToResponse rawData ! i) - RatingValue (rawData ! i) / 1000\<bar>
         \<le> max (\<bar>RatingValue (rawData ! i) / 1000\<bar> / 2 ^ 53) (2 powr (- 1075)))
   \<and> convertRawDataToResponse
       [\<lparr>Rank = 1, RatingValue = 18230, Icon = ''0001.png'', RName = ''Ash'', Lng = ''ja''\<rparr>]
     = [\<lparr>Rank = 1, RatingValue = float64_round (1823 / 100),
         Icon = ''https://resource.pokemon-home.com/battledata/img/icons/trainer/0001.png'',
         RName = ''Ash'', Lng = ''ja''\<rparr>]
   \<and> \<bar>float64_round (1823 / 100) - 1823 / 100\<bar> \<le> 1 / 2 ^ 49"
proof (intro conjI allI impI)
  show "convertRawDataToResponse rawData =
     map (\<lambda>data. \<lparr>Rank = Rank data, RatingValue = float64_round (RatingValue data / 1000),
                  Icon = ''https://resource.pokemon-home.com/battledata/img/icons/trainer/''
                         @ Icon data,
                  RName = RName data, Lng = Lng data\<rparr>) rawData"
    by (simp add: convertRawDataToResponse_map converted_def float64_div_def icon_base_def)
next
  fix i
  assume "i < length rawData"
  then have "RatingValue (convertRawDataToResponse rawData ! i)
             = float64_round (RatingValue (rawData ! i) / 1000)"
    by (simp add: convertRawDataToResponse_map converted_def float64_div_def)
  then show "\<bar>RatingValue (convertRawDataToResponse rawData ! i) - RatingValue (rawData ! i) / 1000\<bar>
         \<le> max (\<bar>RatingValue (rawData ! i) / 1000\<bar> / 2 ^ 53) (2 powr (- 1075))"
    by (simp only: float64_round_error)
next
  show "convertRawDataToResponse
       [\<lparr>Rank = 1, RatingValue = 18230, Icon = ''0001.png'', RName = ''Ash'', Lng = ''ja''\<rparr>]
     = [\<lparr>Rank = 1, RatingValue = float64_round (1823 / 100),
         Icon = ''https://resource.pokemon-home.com/battledata/img/icons/trainer/0001.png'',
         RName = ''Ash'', Lng = ''ja''\<rparr>]"
    by (simp add: convertRawDataToResponse_map converted_def float64_div_def icon_base_def)
next
  show "\<bar>float64_round (1823 / 100) - 1823 / 100\<bar> \<le> 1 / 2 ^ 49"
    by (rule float64_1823)
qed

text \<open>Claim C2 on the row of the specification alone, with the bound on its rating.\<close>

theorem C2_row_transformation_witness:
  "convertRawDataToResponse [ash]
   = [\<lparr>Rank = 1, RatingValue = float64_round (18230 / 1000),
       Icon = ''https://resource.pokemon-home.com/battledata/img/icons/trainer/0001.png'',
       RName = ''Ash'', Lng = ''ja''\<rparr>]
   \<and> \<bar>RatingValue (convertRawDataToResponse [ash] ! 0) - 18230 / 1000\<bar>
       \<le> max (\<bar>18230 / 1000\<bar> / 2 ^ 53) (2 powr (- 1075))"
proof -
  note c = C2_row_transformation [of "[ash]"]
  from c have e: "convertRawDataToResponse [ash]
   = [\<lparr>Rank = 1, RatingValue = float64_round (18230 / 1000),
       Icon = ''https://resource.pokemon-home.com/battledata/img/icons/trainer/0001.png'',
       RName = ''Ash'', Lng = ''ja''\<rparr>]"
    by (simp add: ash_def)
  from c have "\<forall>i<length [ash].
         \<bar>RatingValue (convertRawDataToResponse [ash] ! i) - RatingValue ([ash] ! i) / 1000\<bar>
         \<le> max (\<bar>RatingValue ([ash] ! i) / 1000\<bar> / 2 ^ 53) (2 powr (- 1075))"
    by blast
  then have "\<bar>RatingValue (convertRawDataToResponse [ash] ! 0) - RatingValue ([ash] ! 0) / 1000\<bar>
         \<le> max (\<bar>RatingValue ([ash] ! 0) / 1000\<bar> / 2 ^ 53) (2 powr (- 1075))"
    by simp
  then have "\<bar>RatingValue (convertRawDataToResponse [ash] ! 0) - 18230 / 1000\<bar>
       \<le> max (\<bar>18230 / 1000\<bar> / 2 ^ 53) (2 powr (- 1075))"
    by (simp add: ash_def)
  with e show ?thesis by blast
qed

text \<open>
  Claim C1. When the ranking endpoint answers 200 with a JSON array that decodes to
  \<open>rankingData\<close>: with fewer than 1000 rows the fetch fails with the error "top 1000
  ranking data is less than 1000" (ShortRanking) and returns no entries; with exactly
  1000 rows it succeeds with 1000 entries, and entry \<open>i\<close> is the transformation of row
  \<open>i\<close>.
\<close>

theorem C1_short_ranking:
  assumes "ranking_reply env (rankingURL cId rst ts1) = Reply 200 (Some rankingData)"
  shows "(length rankingData < 1000 \<longrightarrow>
            snd (fetchTop1000RankingData env cId rst ts1) = Inl Top1000LessThan1000)
       \<and> (length rankingData = 1000 \<longrightarrow>
            (\<exists>entries. snd (fetchTop1000RankingData env cId rst ts1) = Inr entries
               \<and> length entries = 1000
               \<and> (\<forall>i<1000. Rank (entries ! i) = Rank (rankingData ! i)
                     \<and> RatingValue (entries ! i) = float64_div (RatingValue (rankingData ! i)) 1000
                     \<and> Icon (entries ! i) = icon_base @ Icon (rankingData ! i)
                     \<and> RName (entries ! i) = RName (rankingData ! i)
                     \<and> Lng (entries ! i) = Lng (rankingData ! i))))"
  using assms
  by (simp add: fetchTop1000RankingData_def convertRawDataToResponse_map converted_def)

text \<open>Claim C1 on 999 rows and on 1000 rows.\<close>

theorem C1_short_ranking_witness:
  "ranking_reply (upstream 999) (rankingURL ''10361'' 0 ''1704070800'')
     = Reply 200 (Some (replicate 999 ash))
   \<and> snd (fetchTop1000RankingData (upstream 999) ''10361'' 0 ''1704070800'')
     = Inl Top1000LessThan1000
   \<and> ranking_reply (upstream 1000) (rankingURL ''10361'' 0 ''1704070800'')
     = Reply 200 (Some (replicate 1000 ash))
   \<and> (\<exists>entries. snd (fetchTop1000RankingData (upstream 1000) ''10361'' 0 ''1704070800'')
          = Inr entries \<and> length entries = 1000 \<and> Icon (entries ! 999) = icon_base @ ''0001.png'')"
proof -
  have a: "ranking_reply (upstream 999) (rankingURL ''10361'' 0 ''1704070800'')
     = Reply 200 (Some (replicate 999 ash))"
    by (rule upstream_fields)
  have b: "ranking_reply (upstream 1000) (rankingURL ''10361'' 0 ''1704070800'')
     = Reply 200 (Some (replicate 1000 ash))"
    by (rule upstream_fields)
  from C1_short_ranking [OF a]
  have short: "snd (fetchTop1000RankingData (upstream 999) ''10361'' 0 ''1704070800'')
     = Inl Top1000LessThan1000"
    by simp
  from C1_short_ranking [OF b]
  obtain entries where e:
    "snd (fetchTop1000RankingData (upstream 1000) ''10361'' 0 ''1704070800'') = Inr entries"
    "length entries = 1000"
    "\<forall>i<1000. Icon (entries ! i) = icon_base @ Icon (replicate 1000 ash ! i)"
    by auto
  from e(3) have "Icon (entries ! 999) = icon_base @ ''0001.png''"
    by (simp add: ash_def)
  with a b short e(1,2) show ?thesis by simp
qed

subsection \<open>RankingHandler\<close>

lemma http_Error_fields:
  "Status (http_Error w msg cause code) = code"
  "Body (http_Error w msg cause code) = ErrorText msg cause"
  "Header (http_Error w msg cause code) ''Content-Type'' = Some ''text/plain; charset=utf-8''"
  "Header (http_Error w msg cause code) ''Access-Control-Allow-Origin''
     = Header w ''Access-Control-Allow-Origin''"
  by (simp_all add: http_Error_def)

lemma Encode_fields:
  "Status (Encode w v) = 200"
  "Body (Encode w v) = JsonBody v"
  "Header (Encode w v) = Header w"
  by (simp_all add: Encode_def)

lemma handler_success:
  assumes "Status (fst (RankingHandler env r)) = 200"
  shows "\<exists>decoded sel top.
           snd (fetchRankingData env) = Inr decoded
         \<and> getLatestSeasonData (time_Now env) (select_order env (Seasons decoded)) = Inr sel
         \<and> snd (fetchTop1000RankingData env (CID sel) (Rst sel) (Sprintf_f0 (Ts1 sel))) = Inr top
         \<and> Body (fst (RankingHandler env r)) = JsonBody \<lparr>SeasonData_of = sel, Top1000 = top\<rparr>
         \<and> snd (RankingHandler env r)
             = [CatalogPOST, RankingGET (rankingURL (CID sel) (Rst sel) (Sprintf_f0 (Ts1 sel)))]"
  using assms
  by (auto simp: RankingHandler_def Let_def http_Error_fields Encode_fields
        fetchRankingData_def fetchTop1000RankingData_def
      split: if_splits sum.splits prod.splits)

lemma handler_headers:
  "Header (fst (RankingHandler env r)) ''Access-Control-Allow-Origin'' = Some ''*''
   \<and> (Status (fst (RankingHandler env r)) = 200 \<and>
        Header (fst (RankingHandler env r)) ''Content-Type'' = Some ''application/json''
      \<or> (Status (fst (RankingHandler env r)) = 405 \<or> Status (fst (RankingHandler env r)) = 500) \<and>
        Header (fst (RankingHandler env r)) ''Content-Type'' = Some ''text/plain; charset=utf-8'')"
  by (auto simp: RankingHandler_def Let_def http_Error_fields Encode_fields
      split: if_splits sum.splits prod.splits)

lemma handler_upstream:
  "1000 \<le> n \<Longrightarrow>
   fst (RankingHandler (upstream n) get_request) =
     \<lparr>Header = [''Access-Control-Allow-Origin'' \<mapsto> ''*'', ''Content-Type'' \<mapsto> ''application/json''],
      Status = 200,
      Body = JsonBody \<lparr>SeasonData_of = rewritten season14,
                       Top1000 = map converted (replicate n ash)\<rparr>\<rparr>"
  by (simp add: RankingHandler_def fetch_catalog14 get_request_def Encode_def Let_def
      fetchTop1000RankingData_def convertRawDataToResponse_map upstream_fields
      select_mid_january)

text \<open>
  Claim C7. A request whose method is not GET is answered with status 405, and the
  handler has issued no upstream call: neither the catalog POST nor the ranking GET.
\<close>

theorem C7_method_not_allowed:
  "Method r \<noteq> ''GET'' \<Longrightarrow>
   Status (fst (RankingHandler env r)) = 405 \<and> snd (RankingHandler env r) = []"
  by (simp add: RankingHandler_def http_Error_def)

text \<open>Claim C7 on a POST request.\<close>

theorem C7_method_not_allowed_witness:
  "Method post_request \<noteq> ''GET''
   \<and> Status (fst (RankingHandler (upstream 1000) post_request)) = 405
   \<and> snd (RankingHandler (upstream 1000) post_request) = []"
proof -
  have m: "Method post_request \<noteq> ''GET''" by (simp add: post_request_def)
  show ?thesis using m C7_method_not_allowed [OF m, of "upstream 1000"] by simp
qed

text \<open>
  Claim C8, amended. Every response carries \<^verbatim>\<open>Access-Control-Allow-Origin: *\<close>, which
  the handler sets on entry. The \<^verbatim>\<open>Content-Type: application/json\<close> set on entry is
  the content type of the 200 response only: a 405 or 500 response is written by
  \<^verbatim>\<open>http.Error\<close>, which replaces it by \<^verbatim>\<open>text/plain; charset=utf-8\<close>. No other
  status occurs.
\<close>

theorem C8_headers_of_every_response:
  "Header (fst (RankingHandler env r)) ''Access-Control-Allow-Origin'' = Some ''*''
   \<and> (Status (fst (RankingHandler env r)) = 200 \<and>
        Header (fst (RankingHandler env r)) ''Content-Type'' = Some ''application/json''
      \<or> (Status (fst (RankingHandler env r)) = 405 \<or> Status (fst (RankingHandler env r)) = 500) \<and>
        Header (fst (RankingHandler env r)) ''Content-Type'' = Some ''text/plain; charset=utf-8'')"
  by (rule handler_headers)

text \<open>
  Claim C8 as stated fails on a POST request: the 405 response does not carry
  \<^verbatim>\<open>Content-Type: application/json\<close>.
\<close>

theorem C8_error_content_type_counterexample:
  "Status (fst (RankingHandler (upstream 1000) post_request)) = 405
   \<and> Header (fst (RankingHandler (upstream 1000) post_request)) ''Content-Type''
      = Some ''text/plain; charset=utf-8''
   \<and> Header (fst (RankingHandler (upstream 1000) post_request)) ''Content-Type''
      \<noteq> Some ''application/json''"
  by (simp add: RankingHandler_def post_request_def http_Error_fields)

text \<open>Claim C8, amended, on a GET request that is answered with 200.\<close>

theorem C8_headers_of_every_response_witness:
  "Status (fst (RankingHandler (upstream 1000) get_request)) = 200
   \<and> Header (fst (RankingHandler (upstream 1000) get_request)) ''Content-Type''
      = Some ''application/json''
   \<and> Header (fst (RankingHandler (upstream 1000) get_request)) ''Access-Control-Allow-Origin''
      = Some ''*''"
proof -
  have s: "Status (fst (RankingHandler (upstream 1000) get_request)) = 200"
    by (simp add: handler_upstream)
  from C8_headers_of_every_response [of "upstream 1000" get_request] s show ?thesis by simp
qed

lemma handler_entries_as_upstream:
  assumes "Status (fst (RankingHandler env r)) = 200"
  shows "\<exists>url rows. RankingGET url \<in> set (snd (RankingHandler env r))
           \<and> ranking_reply env url = Reply 200 (Some rows)
           \<and> 1000 \<le> length rows
           \<and> length (response_entries (fst (RankingHandler env r))) = length rows"
proof -
  from handler_success[OF assms] obtain decoded sel top where h:
    "snd (fetchTop1000RankingData env (CID sel) (Rst sel) (Sprintf_f0 (Ts1 sel))) = Inr top"
    "Body (fst (RankingHandler env r)) = JsonBody \<lparr>SeasonData_of = sel, Top1000 = top\<rparr>"
    "snd (RankingHandler env r)
       = [CatalogPOST, RankingGET (rankingURL (CID sel) (Rst sel) (Sprintf_f0 (Ts1 sel)))]"
    by blast
  let ?url = "rankingURL (CID sel) (Rst sel) (Sprintf_f0 (Ts1 sel))"
  from h(1) obtain rows where rows:
    "ranking_reply env ?url = Reply 200 (Some rows)" "1000 \<le> length rows"
    "top = convertRawDataToResponse rows"
    by (auto simp: fetchTop1000RankingData_def
        split: reply.splits if_splits option.splits)
  have "length (response_entries (fst (RankingHandler env r))) = length rows"
    by (simp add: response_entries_def h(2) rows(3) convertRawDataToResponse_map)
  with rows h(3) show ?thesis by auto
qed

lemma fetch_catalog14_ranked:
  "fetchRankingData (upstream_ranked n) = ([CatalogPOST], Inr \<lparr>Seasons = catalog14\<rparr>)"
proof -
  have a: "catalog_reply (upstream_ranked n) = catalog_reply (upstream n)"
    "fetch_order (upstream_ranked n) = fetch_order (upstream n)"
    by (simp_all add: upstream_ranked_def)
  have "fetchRankingData (upstream_ranked n) = fetchRankingData (upstream n)"
    unfolding fetchRankingData_def a by (rule refl)
  then show ?thesis by (simp add: fetch_catalog14)
qed

lemma upstream_ranked_fields:
  "ranking_reply (upstream_ranked n) url = Reply 200 (Some (ranked_rows n))"
  "time_Now (upstream_ranked n) = mid_january"
  "select_order (upstream_ranked n) seasons = seasons"
  "encode_error (upstream_ranked n) = False"
  by (simp_all add: upstream_ranked_def upstream_def)

lemma handler_upstream_ranked:
  "1000 \<le> n \<Longrightarrow>
   fst (RankingHandler (upstream_ranked n) get_request) =
     \<lparr>Header = [''Access-Control-Allow-Origin'' \<mapsto> ''*'', ''Content-Type'' \<mapsto> ''application/json''],
      Status = 200,
      Body = JsonBody \<lparr>SeasonData_of = rewritten season14,
                       Top1000 = map converted (ranked_rows n)\<rparr>\<rparr>"
  by (simp add: RankingHandler_def fetch_catalog14_ranked get_request_def Encode_def Let_def
      fetchTop1000RankingData_def convertRawDataToResponse_map upstream_ranked_fields
      select_mid_january ranked_rows_def)

text \<open>
  Claim C3 says that a 200 response carries at most 1000 ranking entries, as the
  comments of the source say of \<^verbatim>\<open>fetchTop1000RankingData\<close> (the ranking data up to the
  1000th place) and as the field \<^verbatim>\<open>top_1000\<close> is named. The code checks the lower bound
  only: when the ranking endpoint returns 1001 rows, the response is a 200 with 1001
  entries, the row of rank 1001 among them.
\<close>

theorem C3_top_1000_exceeded:
  "Status (fst (RankingHandler (upstream_ranked 1001) get_request)) = 200
   \<and> length (response_entries (fst (RankingHandler (upstream_ranked 1001) get_request))) = 1001
   \<and> Rank (response_entries (fst (RankingHandler (upstream_ranked 1001) get_request)) ! 1000)
       = 1001"
proof -
  have h: "fst (RankingHandler (upstream_ranked 1001) get_request) =
     \<lparr>Header = [''Access-Control-Allow-Origin'' \<mapsto> ''*'', ''Content-Type'' \<mapsto> ''application/json''],
      Status = 200,
      Body = JsonBody \<lparr>SeasonData_of = rewritten season14,
                       Top1000 = map converted (ranked_rows 1001)\<rparr>\<rparr>"
    by (rule handler_upstream_ranked) simp
  have l: "length (ranked_rows 1001) = 1001" by (simp add: ranked_rows_def)
  have r: "Rank (converted (ranked_rows 1001 ! 1000)) = 1001"
    by (simp add: ranked_rows_def converted_def)
  show ?thesis using l r by (simp add: h response_entries_def)
qed

subsection \<open>fetchRankingData: the assignments to the loop variable\<close>

lemma same_seasonList_simps:
  "same_seasonList (Inl e) (Inl e') = (e = e')"
  "same_seasonList (Inr v) (Inr v') = (seasonList_var v = seasonList_var v')"
  "same_seasonList (Inl e) (Inr v') = False"
  "same_seasonList (Inr v) (Inl e') = False"
  by (simp_all add: same_seasonList_def)

lemma fetch_validate_season_loop:
  "seasonList_var vars = seasonList_var vars' \<Longrightarrow>
   same_seasonList (fetch_season_loop es vars) (validate_season_loop es vars')"
proof (induction es arbitrary: vars vars')
  case Nil
  then show ?case by (simp add: same_seasonList_simps)
next
  case (Cons x es)
  obtain k v where x: "x = (k, v)" by (cases x)
  show ?case
    using Cons.prems
    by (auto simp: x Let_def same_seasonList_simps intro!: Cons.IH split: sum.splits)
qed

lemma fetch_validate_seasons_loop:
  "seasonList_var vars = seasonList_var vars' \<Longrightarrow>
   same_seasonList (fetch_seasons_loop seasons vars) (validate_seasons_loop seasons vars')"
proof (induction seasons arbitrary: vars vars')
  case Nil
  then show ?case by (simp add: same_seasonList_simps)
next
  case (Cons g seasons)
  obtain k season where g: "g = (k, season)" by (cases g)
  from fetch_validate_season_loop[OF Cons.prems, of season]
  show ?case
    by (cases "fetch_season_loop season vars"; cases "validate_season_loop season vars'")
       (auto simp: g same_seasonList_simps intro: Cons.IH)
qed

lemma fetch_season_loop_keeps:
  "fetch_season_loop es vars = Inr vars' \<Longrightarrow> seasonList_var vars' = seasonList_var vars"
proof (induction es arbitrary: vars)
  case Nil
  then show ?case by simp
next
  case (Cons x es)
  obtain k v where x: "x = (k, v)" by (cases x)
  from Cons.prems show ?case
    by (auto simp: x Let_def dest!: Cons.IH split: sum.splits)
qed

lemma fetch_seasons_loop_keeps:
  "fetch_seasons_loop seasons vars = Inr vars' \<Longrightarrow> seasonList_var vars' = seasonList_var vars"
proof (induction seasons arbitrary: vars)
  case Nil
  then show ?case by simp
next
  case (Cons g seasons)
  obtain k season where g: "g = (k, season)" by (cases g)
  from Cons.prems show ?case
    by (auto simp: g dest!: Cons.IH fetch_season_loop_keeps split: sum.splits)
qed

lemma fetch_returns_decoded:
  "snd (fetchRankingData env) = Inr seasonList \<Longrightarrow>
   catalog_reply env = Reply 200 (Some seasonList)"
  by (auto simp: fetchRankingData_def dest!: fetch_seasons_loop_keeps
      split: reply.splits if_splits option.splits sum.splits)

lemma fetch_season_loop_succeeds:
  "(\<exists>vars'. fetch_season_loop es vars = Inr vars')
   = list_all (\<lambda>r. window r \<noteq> None) (map snd es)"
proof (induction es arbitrary: vars)
  case Nil
  then show ?case by simp
next
  case (Cons x es)
  obtain k v where x: "x = (k, v)" by (cases x)
  show ?case
    by (auto simp: x Let_def window_def normalized_def Cons.IH split: sum.splits)
qed

lemma fetch_seasons_loop_succeeds:
  "(\<exists>vars'. fetch_seasons_loop seasons vars = Inr vars') = all_dates_parse seasons"
proof (induction seasons arbitrary: vars)
  case Nil
  then show ?case by (simp add: all_dates_parse_def records_def)
next
  case (Cons g seasons)
  obtain k season where g: "g = (k, season)" by (cases g)
  have r: "all_dates_parse ((k, season) # seasons)
           = (list_all (\<lambda>r. window r \<noteq> None) (map snd season) \<and> all_dates_parse seasons)"
    by (simp add: all_dates_parse_def records_def)
  show ?case
  proof (cases "fetch_season_loop season vars")
    case (Inl err)
    with fetch_season_loop_succeeds[of season vars]
    have "\<not> list_all (\<lambda>r. window r \<noteq> None) (map snd season)" by simp
    with Inl show ?thesis unfolding g r by simp
  next
    case (Inr vars1)
    with fetch_season_loop_succeeds[of season vars]
    have "list_all (\<lambda>r. window r \<noteq> None) (map snd season)" by blast
    with Inr Cons.IH[of vars1] show ?thesis unfolding g r by simp
  qed
qed

lemma fetch_succeeds:
  assumes "catalog_reply env = Reply 200 (Some decoded)"
  shows "(snd (fetchRankingData env) = Inr decoded)
         = all_dates_parse (fetch_order env (Seasons decoded))"
proof -
  let ?v = "\<lparr>seasonList_var = decoded, seasonData_var = zero_SeasonData\<rparr>"
  show ?thesis
  proof (cases "fetch_seasons_loop (fetch_order env (Seasons decoded)) ?v")
    case (Inl err)
    with fetch_seasons_loop_succeeds[of "fetch_order env (Seasons decoded)" ?v]
    show ?thesis by (simp add: fetchRankingData_def assms)
  next
    case (Inr vars)
    from fetch_seasons_loop_keeps[OF Inr] have "seasonList_var vars = decoded" by simp
    with Inr fetch_seasons_loop_succeeds[of "fetch_order env (Seasons decoded)" ?v]
    show ?thesis by (simp add: fetchRankingData_def assms)
  qed
qed

text \<open>
  Claim C10. The catalog fetch returns what the same function returns with the
  assignments to \<^verbatim>\<open>seasonData.Start\<close> and \<^verbatim>\<open>seasonData.End\<close> removed (the same
  upstream call, and the same error or the same list), and whenever it succeeds the
  list it returns is the catalog as decoded from the upstream reply, so with every
  Start and End string as decoded. When the upstream answers 200 with a catalog that
  decodes, the fetch succeeds exactly when the dates of every record parse.
\<close>

theorem C10_rewrite_has_no_effect:
  "fetchRankingData env = fetchRankingData_no_rewrite env
   \<and> (\<forall>seasonList. snd (fetchRankingData env) = Inr seasonList \<longrightarrow>
         catalog_reply env = Reply 200 (Some seasonList))
   \<and> (\<forall>decoded. catalog_reply env = Reply 200 (Some decoded) \<longrightarrow>
         (snd (fetchRankingData env) = Inr decoded)
         = all_dates_parse (fetch_order env (Seasons decoded)))"
proof (intro conjI)
  show "fetchRankingData env = fetchRankingData_no_rewrite env"
  proof (cases "catalog_reply env")
    case TransportFailure
    then show ?thesis by (simp add: fetchRankingData_def fetchRankingData_no_rewrite_def)
  next
    case (Reply code body)
    show ?thesis
    proof (cases "code = 200 \<and> body \<noteq> None")
      case False
      with Reply show ?thesis
        by (auto simp: fetchRankingData_def fetchRankingData_no_rewrite_def)
    next
      case True
      then obtain decoded where b: "code = 200" "body = Some decoded" by auto
      let ?v = "\<lparr>seasonList_var = decoded, seasonData_var = zero_SeasonData\<rparr>"
      have "same_seasonList (fetch_seasons_loop (fetch_order env (Seasons decoded)) ?v)
              (validate_seasons_loop (fetch_order env (Seasons decoded)) ?v)"
        by (rule fetch_validate_seasons_loop) simp
      then show ?thesis
        by (cases "fetch_seasons_loop (fetch_order env (Seasons decoded)) ?v";
            cases "validate_seasons_loop (fetch_order env (Seasons decoded)) ?v")
           (simp_all add: fetchRankingData_def fetchRankingData_no_rewrite_def Reply b
              same_seasonList_simps)
    qed
  qed
next
  show "\<forall>seasonList. snd (fetchRankingData env) = Inr seasonList \<longrightarrow>
          catalog_reply env = Reply 200 (Some seasonList)"
    by (blast intro: fetch_returns_decoded)
next
  show "\<forall>decoded. catalog_reply env = Reply 200 (Some decoded) \<longrightarrow>
          (snd (fetchRankingData env) = Inr decoded)
          = all_dates_parse (fetch_order env (Seasons decoded))"
    by (blast dest: fetch_succeeds)
qed

text \<open>Claim C10 on the example upstream, whose catalog has slash-separated dates.\<close>

theorem C10_rewrite_has_no_effect_witness:
  "snd (fetchRankingData (upstream 1000)) = Inr \<lparr>Seasons = catalog14\<rparr>
   \<and> fetchRankingData_no_rewrite (upstream 1000) = ([CatalogPOST], Inr \<lparr>Seasons = catalog14\<rparr>)
   \<and> catalog_reply (upstream 1000) = Reply 200 (Some \<lparr>Seasons = catalog14\<rparr>)
   \<and> all_dates_parse (fetch_order (upstream 1000) catalog14)
   \<and> Start season14 = ''2024/01/01 09:00''"
proof -
  have f: "fetchRankingData (upstream 1000) = ([CatalogPOST], Inr \<lparr>Seasons = catalog14\<rparr>)"
    by (rule fetch_catalog14)
  then have s: "snd (fetchRankingData (upstream 1000)) = Inr \<lparr>Seasons = catalog14\<rparr>"
    by simp
  note c = C10_rewrite_has_no_effect [of "upstream 1000"]
  from c have e: "fetchRankingData_no_rewrite (upstream 1000) = fetchRankingData (upstream 1000)"
    by simp
  from c s have r: "catalog_reply (upstream 1000) = Reply 200 (Some \<lparr>Seasons = catalog14\<rparr>)"
    by blast
  from c r s have "all_dates_parse (fetch_order (upstream 1000) (Seasons \<lparr>Seasons = catalog14\<rparr>))"
    by blast
  with r s e f show ?thesis by (simp add: season14_def)
qed

subsection \<open>getLatestSeasonData\<close>

lemma latest_season_loop_step:
  "latest_season_loop now ((k, r) # rest) =
    (case time_Parse (normalized (Start r)) of
       Inl err \<Rightarrow> Some (Inl (FailedToParseStartTime err))
     | Inr start \<Rightarrow>
        (case time_Parse (normalized (End r)) of
           Inl err \<Rightarrow> Some (Inl (FailedToParseEndTime err))
         | Inr end_t \<Rightarrow>
             if instant start < now \<and> now < instant end_t then Some (Inr (rewritten r))
             else latest_season_loop now rest))"
  by (simp add: Let_def normalized_def rewritten_def After_def Before_def
      split: sum.splits)

lemma latest_season_loop_window:
  "window r = Some (s, e) \<Longrightarrow>
   latest_season_loop now ((k, r) # rest) =
     (if s < now \<and> now < e then Some (Inr (rewritten r)) else latest_season_loop now rest)"
  unfolding latest_season_loop_step
  by (auto simp: window_def split: sum.splits)

lemma latest_season_loop_append:
  "latest_season_loop now (xs @ ys) =
    (case latest_season_loop now xs of Some res \<Rightarrow> Some res | None \<Rightarrow> latest_season_loop now ys)"
proof (induction xs)
  case Nil
  then show ?case by simp
next
  case (Cons x xs)
  obtain k r where x: "x = (k, r)" by (cases x)
  show ?case
    unfolding x append_Cons latest_season_loop_step using Cons.IH
    by (simp split: sum.splits)
qed

lemma latest_seasons_loop_flat:
  "latest_seasons_loop now seasons = latest_season_loop now (concat (map snd seasons))"
proof (induction seasons)
  case Nil
  then show ?case by simp
next
  case (Cons g seasons)
  obtain k season where g: "g = (k, season)" by (cases g)
  show ?case using Cons.IH
    by (simp add: g latest_season_loop_append split: option.splits)
qed

lemma records_flat: "records seasons = map snd (concat (map snd seasons))"
  by (induction seasons) (auto simp: records_def)

lemma latest_season_loop_selected:
  "latest_season_loop now es = Some (Inr sel) \<Longrightarrow>
   \<exists>r\<in>set (map snd es). \<exists>s e. window r = Some (s, e) \<and> s < now \<and> now < e \<and> sel = rewritten r"
proof (induction es)
  case Nil
  then show ?case by simp
next
  case (Cons x es)
  obtain k r where x: "x = (k, r)" by (cases x)
  show ?case
  proof (cases "window r")
    case None
    then have "\<exists>err. latest_season_loop now (x # es) = Some (Inl err)"
      unfolding x latest_season_loop_step by (auto simp: window_def split: sum.splits)
    with Cons.prems show ?thesis by auto
  next
    case (Some w)
    obtain s e where w: "w = (s, e)" by (cases w)
    show ?thesis
    proof (cases "s < now \<and> now < e")
      case True
      with Cons.prems Some w x show ?thesis
        by (auto simp: latest_season_loop_window simp del: latest_season_loop.simps)
    next
      case False
      with Cons.prems Some w x have "latest_season_loop now es = Some (Inr sel)"
        by (auto simp: latest_season_loop_window simp del: latest_season_loop.simps)
      from Cons.IH[OF this] show ?thesis by auto
    qed
  qed
qed

lemma latest_season_loop_find:
  "list_all (\<lambda>r. window r \<noteq> None) (map snd es) \<Longrightarrow>
   latest_season_loop now es =
     (case find (active now) (map snd es) of None \<Rightarrow> None | Some r \<Rightarrow> Some (Inr (rewritten r)))"
proof (induction es)
  case Nil
  then show ?case by simp
next
  case (Cons x es)
  obtain k r where x: "x = (k, r)" by (cases x)
  from Cons.prems x obtain s e where w: "window r = Some (s, e)" by auto
  from Cons.prems have "list_all (\<lambda>r. window r \<noteq> None) (map snd es)" by simp
  from Cons.IH[OF this] show ?case
    by (simp add: x latest_season_loop_window[OF w] active_def w
        del: latest_season_loop.simps)
qed

lemma getLatestSeasonData_selected:
  assumes "getLatestSeasonData now seasons = Inr sel"
  shows "\<exists>r\<in>set (records seasons). \<exists>s e.
           window r = Some (s, e) \<and> s < now \<and> now < e \<and> sel = rewritten r"
proof -
  from assms have "latest_season_loop now (concat (map snd seasons)) = Some (Inr sel)"
    by (simp add: getLatestSeasonData_def latest_seasons_loop_flat split: option.splits)
  from latest_season_loop_selected[OF this] show ?thesis by (simp add: records_flat)
qed

lemma getLatestSeasonData_find:
  assumes "all_dates_parse seasons"
  shows "getLatestSeasonData now seasons =
          (case find (active now) (records seasons) of
             None \<Rightarrow> Inl NoSeasonDataAvailable
           | Some r \<Rightarrow> Inr (rewritten r))"
proof -
  from assms have "list_all (\<lambda>r. window r \<noteq> None) (map snd (concat (map snd seasons)))"
    by (simp add: all_dates_parse_def records_flat)
  from latest_season_loop_find[OF this] show ?thesis
    by (simp add: getLatestSeasonData_def latest_seasons_loop_flat records_flat
        split: option.splits)
qed









subsection \<open>Selection and the order of iteration\<close>

lemma mset_records:
  "mset (records c) =
   sum_mset (image_mset (\<lambda>(k, M). image_mset snd M) (mset (map (\<lambda>(k, season). (k, mset season)) c)))"
  by (induction c) (auto simp: records_def)

lemma same_catalog_records:
  "same_catalog c1 c2 \<Longrightarrow> mset (records c1) = mset (records c2)"
  by (simp add: mset_records same_catalog_def)

lemma active_overlaps: "active now r \<Longrightarrow> active now r' \<Longrightarrow> overlaps r r'"
  by (auto simp: active_def overlaps_def split: option.splits)

lemma overlaps_sym: "overlaps r r' = overlaps r' r"
  by (auto simp: overlaps_def max.commute min.commute split: option.splits)

lemma pairwise_disjoint_unique:
  "pairwise_disjoint rs \<Longrightarrow> r1 \<in> set rs \<Longrightarrow> r2 \<in> set rs \<Longrightarrow>
   active now r1 \<Longrightarrow> active now r2 \<Longrightarrow> r1 = r2"
proof (induction rs)
  case Nil
  then show ?case by simp
next
  case (Cons r rs)
  from Cons.prems(1) have tail: "pairwise_disjoint rs"
    and head: "\<forall>r'\<in>set rs. \<not> overlaps r r'"
    by (simp_all add: list_all_iff)
  show ?case
  proof (cases "r1 = r2")
    case True
    then show ?thesis .
  next
    case False
    from Cons.prems(4,5) have o: "overlaps r1 r2" by (rule active_overlaps)
    consider "r1 = r" "r2 \<in> set rs" | "r2 = r" "r1 \<in> set rs" | "r1 \<in> set rs" "r2 \<in> set rs"
      using Cons.prems(2,3) False by auto
    then show ?thesis
    proof cases
      case 1
      with head o show ?thesis by blast
    next
      case 2
      with head o overlaps_sym show ?thesis by blast
    next
      case 3
      with Cons.IH tail Cons.prems(4,5) show ?thesis by blast
    qed
  qed
qed

lemma find_unique:
  assumes "set xs = set ys"
    and "\<And>a b. a \<in> set xs \<Longrightarrow> b \<in> set xs \<Longrightarrow> P a \<Longrightarrow> P b \<Longrightarrow> a = b"
  shows "find P xs = find P ys"
proof (cases "find P xs")
  case None
  then have "\<forall>x\<in>set ys. \<not> P x" using assms(1) by (simp add: find_None_iff)
  then have "find P ys = None" by (simp add: find_None_iff)
  with None show ?thesis by simp
next
  case (Some a)
  then have a: "a \<in> set xs" "P a" by (auto simp: find_Some_iff)
  then have "\<exists>y\<in>set ys. P y" using assms(1) by auto
  then obtain b where b: "find P ys = Some b" by (cases "find P ys") (auto simp: find_None_iff)
  then have "b \<in> set xs" "P b" using assms(1) by (auto simp: find_Some_iff)
  with a assms(2) have "a = b" by blast
  with Some b show ?thesis by simp
qed

text \<open>
  Claim C6, amended. For a catalog in which the dates of every record parse (which the
  catalog fetch checks before selection runs) and whose windows do not overlap,
  selection returns the same outcome for any two orders of iteration over the two-level
  mapping.
\<close>

theorem C6_order_independence:
  assumes "all_dates_parse c1" and "windows_disjoint c1" and "same_catalog c1 c2"
  shows "getLatestSeasonData now c1 = getLatestSeasonData now c2"
proof -
  from assms(3) have m: "mset (records c1) = mset (records c2)"
    by (rule same_catalog_records)
  then have s: "set (records c1) = set (records c2)" by (rule mset_eq_setD)
  with assms(1) have p2: "all_dates_parse c2"
    by (simp add: all_dates_parse_def list_all_iff)
  have "find (active now) (records c1) = find (active now) (records c2)"
  proof (rule find_unique[OF s])
    fix a b
    assume "a \<in> set (records c1)" "b \<in> set (records c1)" "active now a" "active now b"
    with assms(2) show "a = b"
      unfolding windows_disjoint_def by (blast intro: pairwise_disjoint_unique)
  qed
  then show ?thesis
    by (simp add: getLatestSeasonData_find[OF assms(1)] getLatestSeasonData_find[OF p2])
qed

lemma select_malformed_last:
  "getLatestSeasonData mid_january catalog_malformed_last = Inr (rewritten season14)"
  by (simp add: getLatestSeasonData_def catalog_malformed_last_def season14_def rewritten_def
      mid_january_def After_def Before_def parse_defs instant_defs)

lemma select_malformed_first:
  "getLatestSeasonData mid_january catalog_malformed_first
   = Inl (FailedToParseStartTime (ParseError ''soon:00'' CannotParse))"
  by (simp add: getLatestSeasonData_def catalog_malformed_first_def season_malformed_def
      season15_def parse_defs)

text \<open>
  Claim C6 as stated fails on a catalog with one active record and one record whose
  start date is malformed: visiting the active record first selects it, visiting the
  malformed record first fails with the parse error.
\<close>

theorem C6_malformed_record_counterexample:
  "same_catalog catalog_malformed_last catalog_malformed_first
   \<and> windows_disjoint catalog_malformed_last
   \<and> windows_disjoint catalog_malformed_first
   \<and> getLatestSeasonData mid_january catalog_malformed_last = Inr (rewritten season14)
   \<and> getLatestSeasonData mid_january catalog_malformed_first
       = Inl (FailedToParseStartTime (ParseError ''soon:00'' CannotParse))"
proof -
  have "same_catalog catalog_malformed_last catalog_malformed_first"
    by (simp add: same_catalog_def catalog_malformed_last_def catalog_malformed_first_def
        add_mset_commute)
  moreover have "windows_disjoint catalog_malformed_last"
    by (simp add: windows_disjoint_def records_def catalog_malformed_last_def overlaps_def
        window_season_malformed window_season14)
  moreover have "windows_disjoint catalog_malformed_first"
    by (simp add: windows_disjoint_def records_def catalog_malformed_first_def overlaps_def
        window_season_malformed window_season14)
  ultimately show ?thesis
    using select_malformed_last select_malformed_first by simp
qed

lemma same_catalog14: "same_catalog catalog14 catalog14_reordered"
  by (simp add: same_catalog_def catalog14_def catalog14_reordered_def add_mset_commute)

lemma all_dates_parse_catalog14: "all_dates_parse catalog14"
  by (simp add: all_dates_parse_def records_catalog14 window_season14 window_season15)

lemma windows_disjoint_catalog14: "windows_disjoint catalog14"
  by (simp add: windows_disjoint_def records_catalog14 overlaps_def window_season14
      window_season15)

text \<open>Claim C6, amended, on the example catalog and its two groups visited in reverse.\<close>

theorem C6_order_independence_witness:
  "all_dates_parse catalog14 \<and> windows_disjoint catalog14
   \<and> same_catalog catalog14 catalog14_reordered
   \<and> getLatestSeasonData mid_january catalog14_reordered = Inr (rewritten season14)"
  using C6_order_independence [OF all_dates_parse_catalog14 windows_disjoint_catalog14
      same_catalog14, of mid_january]
    all_dates_parse_catalog14 windows_disjoint_catalog14 same_catalog14 select_mid_january
  by simp

subsection \<open>The season record of the response\<close>

text \<open>
  Claim C9, amended. In a 200 response the season record is a record of the decoded
  catalog with its Start and End strings rewritten (every slash replaced by a dash,
  \<^verbatim>\<open>:00\<close> appended); every other field is as decoded. The loop of the selection
  visits the entries of the decoded catalog, each once.
\<close>

theorem C9_season_record_rewritten:
  assumes "Status (fst (RankingHandler env r)) = 200"
    and "catalog_reply env = Reply 200 (Some decoded)"
    and "same_catalog (select_order env (Seasons decoded)) (Seasons decoded)"
  shows "\<exists>entry\<in>set (records (Seasons decoded)). \<exists>sel.
           response_season (fst (RankingHandler env r)) = Some sel
         \<and> CID sel = CID entry \<and> Cnt sel = Cnt entry \<and> Name sel = Name entry
         \<and> RankCnt sel = RankCnt entry \<and> Rst sel = Rst entry \<and> Rule sel = Rule entry
         \<and> Season sel = Season entry \<and> Ts1 sel = Ts1 entry \<and> Ts2 sel = Ts2 entry
         \<and> Start sel = strings_Replace_slash (Start entry) @ '':00''
         \<and> End sel = strings_Replace_slash (End entry) @ '':00''"
proof -
  from handler_success[OF assms(1)] obtain seasonList sel top where h:
    "snd (fetchRankingData env) = Inr seasonList"
    "getLatestSeasonData (time_Now env) (select_order env (Seasons seasonList)) = Inr sel"
    "Body (fst (RankingHandler env r)) = JsonBody \<lparr>SeasonData_of = sel, Top1000 = top\<rparr>"
    by blast
  from fetch_returns_decoded[OF h(1)] assms(2) have d: "seasonList = decoded" by simp
  from getLatestSeasonData_selected[OF h(2)] obtain entry where r:
    "entry \<in> set (records (select_order env (Seasons decoded)))" "sel = rewritten entry"
    unfolding d by blast
  from same_catalog_records[OF assms(3)]
  have "set (records (select_order env (Seasons decoded))) = set (records (Seasons decoded))"
    by (rule mset_eq_setD)
  with r(1) have m: "entry \<in> set (records (Seasons decoded))" by simp
  have "response_season (fst (RankingHandler env r)) = Some sel"
    by (simp add: response_season_def h(3))
  with m r(2) show ?thesis
    by (auto simp: rewritten_def normalized_def)
qed

text \<open>
  Claim C9 as stated fails on the example upstream: the season record of the 200
  response has the start string \<^verbatim>\<open>2024-01-01 09:00:00\<close> where the catalog has
  \<^verbatim>\<open>2024/01/01 09:00\<close>, and is no record of the catalog.
\<close>

theorem C9_start_string_changed_counterexample:
  "Status (fst (RankingHandler (upstream 1000) get_request)) = 200
   \<and> catalog_reply (upstream 1000) = Reply 200 (Some \<lparr>Seasons = catalog14\<rparr>)
   \<and> records catalog14 = [season14, season15]
   \<and> response_season (fst (RankingHandler (upstream 1000) get_request))
       = Some (season14\<lparr>Start := ''2024-01-01 09:00:00'', End := ''2024-02-01 08:59:00''\<rparr>)
   \<and> Start season14 = ''2024/01/01 09:00''
   \<and> response_season (fst (RankingHandler (upstream 1000) get_request)) \<noteq> Some season14
   \<and> response_season (fst (RankingHandler (upstream 1000) get_request)) \<noteq> Some season15"
proof -
  have "fst (RankingHandler (upstream 1000) get_request) =
     \<lparr>Header = [''Access-Control-Allow-Origin'' \<mapsto> ''*'', ''Content-Type'' \<mapsto> ''application/json''],
      Status = 200,
      Body = JsonBody \<lparr>SeasonData_of = rewritten season14,
                       Top1000 = map converted (replicate 1000 ash)\<rparr>\<rparr>"
    by (rule handler_upstream) simp
  moreover have "catalog_reply (upstream 1000) = Reply 200 (Some \<lparr>Seasons = catalog14\<rparr>)"
    by (simp add: upstream_def)
  moreover have "rewritten season14
      = season14\<lparr>Start := ''2024-01-01 09:00:00'', End := ''2024-02-01 08:59:00''\<rparr>"
    by (simp add: rewritten_def normalized_def strings_Replace_slash_def season14_def)
  moreover have "season14\<lparr>Start := ''2024-01-01 09:00:00'', End := ''2024-02-01 08:59:00''\<rparr>
      \<noteq> season14"
    by (simp add: season14_def)
  moreover have "season14\<lparr>Start := ''2024-01-01 09:00:00'', End := ''2024-02-01 08:59:00''\<rparr>
      \<noteq> season15"
    by (simp add: season14_def season15_def)
  moreover have "Start season14 = ''2024/01/01 09:00''"
    by (simp add: season14_def)
  ultimately show ?thesis
    by (simp add: response_season_def records_catalog14)
qed

text \<open>Claim C9, amended, on the example upstream.\<close>

theorem C9_season_record_rewritten_witness:
  "Status (fst (RankingHandler (upstream 1000) get_request)) = 200
   \<and> catalog_reply (upstream 1000) = Reply 200 (Some \<lparr>Seasons = catalog14\<rparr>)
   \<and> same_catalog (select_order (upstream 1000) catalog14) catalog14
   \<and> (\<exists>entry\<in>set (records catalog14). \<exists>sel.
           response_season (fst (RankingHandler (upstream 1000) get_request)) = Some sel
         \<and> CID sel = CID entry
         \<and> Start sel = strings_Replace_slash (Start entry) @ '':00''
         \<and> End sel = strings_Replace_slash (End entry) @ '':00'')"
proof -
  have s: "Status (fst (RankingHandler (upstream 1000) get_request)) = 200"
    by (simp add: handler_upstream)
  have c: "catalog_reply (upstream 1000) = Reply 200 (Some \<lparr>Seasons = catalog14\<rparr>)"
    by (simp add: upstream_def)
  have o: "same_catalog (select_order (upstream 1000) (Seasons \<lparr>Seasons = catalog14\<rparr>))
             (Seasons \<lparr>Seasons = catalog14\<rparr>)"
    by (simp add: upstream_fields same_catalog_def)
  from C9_season_record_rewritten [OF s c o]
  have "\<exists>entry\<in>set (records catalog14). \<exists>sel.
           response_season (fst (RankingHandler (upstream 1000) get_request)) = Some sel
         \<and> CID sel = CID entry
         \<and> Start sel = strings_Replace_slash (Start entry) @ '':00''
         \<and> End sel = strings_Replace_slash (End entry) @ '':00''"
    by fastforce
  with s c o show ?thesis by simp
qed

subsection \<open>Parsing the upstream's date strings\<close>

lemma digit_cases:
  "0 \<le> (n::int) \<Longrightarrow> n < 10 \<Longrightarrow> n \<in> {0, 1, 2, 3, 4, 5, 6, 7, 8, 9}"
  by simp arith

lemma digit_char_facts:
  assumes "0 \<le> n" and "n < 10"
  shows "digit_byte (digit_char n)"
    and "int (digit_val (digit_char n)) = n"
    and "digit_char n \<noteq> CHR ''/''"
    and "digit_char n \<noteq> CHR '' ''"
    and "digit_char n \<noteq> CHR ''-''"
    and "digit_char n \<noteq> CHR ''+''"
  using digit_cases[OF assms]
  by (auto simp: digit_char_def digit_byte_def digit_val_def)

lemma getnum_digits2:
  assumes "0 \<le> n" and "n < 100"
  shows "getnum (digits2 n @ rest) fixed = Some (n, rest)"
proof -
  have a: "0 \<le> n div 10" "n div 10 < 10" "0 \<le> n mod 10" "n mod 10 < 10"
    using assms by auto
  have v: "n div 10 * 10 + n mod 10 = n" by simp
  show ?thesis
    using v by (simp add: getnum_def digits2_def isDigit_def digit_char_facts[OF a(1,2)]
        digit_char_facts[OF a(3,4)])
qed

lemma getnum_00: "getnum (''00'' @ rest) fixed = Some (0, rest)"
  by (simp add: getnum_def isDigit_def digit_byte_def digit_val_def)

lemma atoi_four_digits:
  assumes "0 \<le> a" "a < 10" "0 \<le> b" "b < 10" "0 \<le> c" "c < 10" "0 \<le> d" "d < 10"
  shows "atoi [digit_char a, digit_char b, digit_char c, digit_char d]
         = Some (((a * 10 + b) * 10 + c) * 10 + d)"
  using assms
  by (simp add: atoi_def digit_char_facts)

lemma four_digits_value:
  "((y div 1000 * 10 + y div 100 mod 10) * 10 + y div 10 mod 10) * 10 + y mod 10 = (y::int)"
proof -
  have d100: "y div 100 = y div 10 div 10" using zdiv_zmult2_eq[of 10 y 10] by simp
  have d1000: "y div 1000 = y div 10 div 10 div 10"
    using zdiv_zmult2_eq[of 10 y 100] d100 by simp
  show ?thesis by (simp add: d100 d1000)
qed

lemma four_digits_range:
  assumes "0 \<le> (y::int)" and "y \<le> 9999"
  shows "0 \<le> y div 1000" "y div 1000 < 10" "0 \<le> y div 100 mod 10" "y div 100 mod 10 < 10"
    "0 \<le> y div 10 mod 10" "y div 10 mod 10 < 10" "0 \<le> y mod 10" "y mod 10 < 10"
  using assms by simp_all

lemma std_LongYear_digits4:
  assumes "0 \<le> y" and "y \<le> 9999"
  shows "std_LongYear (digits4 y @ rest) = Inr (y, rest)"
proof -
  note r = four_digits_range[OF assms]
  show ?thesis
    using four_digits_value[of y]
    by (simp add: std_LongYear_def digits4_def isDigit_def and_then_def or_bad_def
        digit_char_facts[OF r(1,2)] atoi_four_digits[OF r])
qed

lemma cutspace_digits2:
  "0 \<le> n \<Longrightarrow> n < 100 \<Longrightarrow> cutspace (CHR '' '' # digits2 n @ rest) = digits2 n @ rest"
proof -
  assume "0 \<le> n" "n < 100"
  then have "0 \<le> n div 10" "n div 10 < 10" by auto
  from digit_char_facts(4)[OF this] show ?thesis
    by (simp add: cutspace_def digits2_def)
qed

lemma skip_space_digits2:
  "0 \<le> n \<Longrightarrow> n < 100 \<Longrightarrow> skip (CHR '' '' # digits2 n @ rest) '' '' = Some (digits2 n @ rest)"
  using cutspace_digits2[of n rest] by (simp add: cutspace_def)

lemma skip_byte: "c \<noteq> CHR '' '' \<Longrightarrow> skip (c # rest) [c] = Some rest"
  by simp

lemma fractional_second_none:
  "fractional_second [] = Inr (0, [])"
  "fractional_second '':00'' = Inr (0, '':00'')"
  by (simp_all add: fractional_second_def commaOrPeriod_def)

lemma strings_Replace_slash_digits:
  assumes "0 \<le> n" and "n < 100"
  shows "strings_Replace_slash (digits2 n) = digits2 n"
proof -
  have a: "0 \<le> n div 10" "n div 10 < 10" "0 \<le> n mod 10" "n mod 10 < 10"
    using assms by auto
  show ?thesis
    by (simp add: strings_Replace_slash_def digits2_def digit_char_facts[OF a(1,2)]
        digit_char_facts[OF a(3,4)])
qed

lemma strings_Replace_slash_digits4:
  assumes "0 \<le> y" and "y \<le> 9999"
  shows "strings_Replace_slash (digits4 y) = digits4 y"
proof -
  note r = four_digits_range[OF assms]
  show ?thesis
    by (simp add: strings_Replace_slash_def digits4_def digit_char_facts[OF r(1,2)]
        digit_char_facts[OF r(3,4)] digit_char_facts[OF r(5,6)] digit_char_facts[OF r(7,8)])
qed

lemma strings_Replace_slash_append:
  "strings_Replace_slash (xs @ ys) = strings_Replace_slash xs @ strings_Replace_slash ys"
  by (simp add: strings_Replace_slash_def)

lemma normalize_date_string:
  assumes "valid_date y m d h mi" and "sep = CHR ''/'' \<or> sep = CHR ''-''"
  shows "strings_Replace_slash (date_string sep y m d h mi) = date_string (CHR ''-'') y m d h mi"
proof -
  from assms(1) have r: "0 \<le> y" "y \<le> 9999" "0 \<le> m" "m < 100" "0 \<le> d" "d < 100"
    "0 \<le> h" "h < 100" "0 \<le> mi" "mi < 100"
    by (auto simp: valid_date_def daysIn_def split: if_splits)
  have s: "strings_Replace_slash [sep] = ''-''" "strings_Replace_slash '' '' = '' ''"
    "strings_Replace_slash '':'' = '':''"
    using assms(2) by (auto simp: strings_Replace_slash_def)
  show ?thesis
    unfolding date_string_def strings_Replace_slash_append
    by (simp only: s strings_Replace_slash_digits4[OF r(1,2)] strings_Replace_slash_digits[OF r(3,4)]
        strings_Replace_slash_digits[OF r(5,6)] strings_Replace_slash_digits[OF r(7,8)]
        strings_Replace_slash_digits[OF r(9,10)])
qed

lemma std_ZeroMonth_digits2:
  "1 \<le> m \<Longrightarrow> m \<le> 12 \<Longrightarrow> std_ZeroMonth (digits2 m @ rest) = Inr (m, rest)"
  by (simp add: std_ZeroMonth_def getnum_digits2 and_then_def or_bad_def in_range_def)

lemma std_ZeroDay_digits2:
  "0 \<le> d \<Longrightarrow> d < 100 \<Longrightarrow> std_ZeroDay (digits2 d @ rest) = Inr (d, rest)"
  by (simp add: std_ZeroDay_def getnum_digits2 or_bad_def)

lemma std_Hour_digits2:
  "0 \<le> h \<Longrightarrow> h < 24 \<Longrightarrow> std_Hour (digits2 h @ rest) = Inr (h, rest)"
  by (simp add: std_Hour_def getnum_digits2 and_then_def or_bad_def in_range_def)

lemma std_ZeroMinute_digits2:
  "0 \<le> mi \<Longrightarrow> mi < 60 \<Longrightarrow> std_ZeroMinute (digits2 mi @ rest) = Inr (mi, rest)"
  by (simp add: std_ZeroMinute_def getnum_digits2 and_then_def or_bad_def in_range_def)

lemma std_ZeroSecond_00: "std_ZeroSecond ''00'' = Inr ((0, 0), [])"
  using getnum_00[of "[]"]
  by (simp add: std_ZeroSecond_def and_then_def or_bad_def in_range_def fractional_second_none)

lemma std_ZeroSecond_digits2:
  "0 \<le> s \<Longrightarrow> s < 60 \<Longrightarrow> std_ZeroSecond (digits2 s @ '':00'') = Inr ((s, 0), '':00'')"
  by (simp add: std_ZeroSecond_def getnum_digits2 and_then_def or_bad_def in_range_def
      fractional_second_none)

lemma parse_up_to_seconds:
  assumes "valid_date y m d h mi"
  shows "parse_layout (date_string (CHR ''-'') y m d h mi @ '':'' @ rest)
         = and_then (std_ZeroSecond rest) (\<lambda>((sc, nsec), v).
             if v \<noteq> [] then Inl (ExtraText v)
             else Inr \<lparr>year = y, month = m, day = d, hour = h, minute = mi, second = sc,
                       nanosecond = nsec\<rparr>)"
proof -
  from assms have v: "0 \<le> y" "y \<le> 9999" "1 \<le> m" "m \<le> 12" "1 \<le> d" "d \<le> daysIn m y"
    "0 \<le> h" "h < 24" "0 \<le> mi" "mi < 60"
    by (auto simp: valid_date_def)
  from v(6) have d: "0 \<le> d" "d < 100" using v(5) by (auto simp: daysIn_def split: if_splits)
  from v have h: "h < 100" by simp
  have day: "(d < 1) = False" "(daysIn m y < d) = False" using v by simp_all
  have "parse_layout (digits4 y @ CHR ''-'' # digits2 m @ CHR ''-'' # digits2 d @ CHR '' '' #
          digits2 h @ CHR '':'' # digits2 mi @ CHR '':'' # rest)
        = and_then (std_ZeroSecond rest) (\<lambda>((sc, nsec), v).
             if v \<noteq> [] then Inl (ExtraText v)
             else Inr \<lparr>year = y, month = m, day = d, hour = h, minute = mi, second = sc,
                       nanosecond = nsec\<rparr>)"
    unfolding parse_layout_def
    by (cases "std_ZeroSecond rest")
       (simp_all add: std_LongYear_digits4[OF v(1,2)] std_ZeroMonth_digits2[OF v(3,4)]
        std_ZeroDay_digits2[OF d] skip_space_digits2[OF v(7) h] std_Hour_digits2[OF v(7,8)]
        std_ZeroMinute_digits2[OF v(9,10)] skip_byte day and_then_def or_bad_def
        del: skip.simps split: prod.splits)
  then show ?thesis by (simp add: date_string_def)
qed

lemma parse_date_string:
  assumes "valid_date y m d h mi"
  shows "parse_layout (date_string (CHR ''-'') y m d h mi @ '':00'')
         = Inr \<lparr>year = y, month = m, day = d, hour = h, minute = mi, second = 0, nanosecond = 0\<rparr>"
  using parse_up_to_seconds[OF assms, of "''00''"]
  by (simp add: std_ZeroSecond_00 and_then_def)

lemma parse_date_string_seconds:
  assumes "valid_date y m d h mi" and "0 \<le> s" and "s < 60"
  shows "parse_layout (date_string (CHR ''-'') y m d h mi @ '':'' @ digits2 s @ '':00'')
         = Inl (ExtraText '':00'')"
  using parse_up_to_seconds[OF assms(1), of "digits2 s @ '':00''"]
  by (simp add: std_ZeroSecond_digits2[OF assms(2,3)] and_then_def)

lemma single_record_start_failure:
  "(getLatestSeasonData now [(g, [(k, r)])] = Inl (FailedToParseStartTime err))
   = (time_Parse (strings_Replace_slash (Start r) @ '':00'') = Inl err)"
  unfolding getLatestSeasonData_def latest_seasons_loop.simps latest_season_loop_step
  by (auto simp: normalized_def split: sum.splits)

lemma single_record_end_failure:
  "(getLatestSeasonData now [(g, [(k, r)])] = Inl (FailedToParseEndTime err))
   = ((\<exists>start. time_Parse (strings_Replace_slash (Start r) @ '':00'') = Inr start)
      \<and> time_Parse (strings_Replace_slash (End r) @ '':00'') = Inl err)"
  unfolding getLatestSeasonData_def latest_seasons_loop.simps latest_season_loop_step
  by (auto simp: normalized_def split: sum.splits)

text \<open>
  Claim C5, amended. The program replaces every slash of a date string by a dash,
  appends \<^verbatim>\<open>:00\<close> whether or not the string has a seconds field, and parses the result
  with the layout \<^verbatim>\<open>2006-01-02 15:04:05\<close>; it fails with the parse error exactly when
  \<^verbatim>\<open>time.Parse\<close> rejects that string. A valid date and time of day without seconds,
  written with slashes or with dashes, parses to that date and time with second 0; the
  same string with a seconds field is rejected, the appended \<^verbatim>\<open>:00\<close> being extra text.
\<close>

theorem C5_seconds_appended_always:
  "(valid_date y m d h mi \<and> (sep = CHR ''/'' \<or> sep = CHR ''-'') \<longrightarrow>
      time_Parse (strings_Replace_slash (date_string sep y m d h mi) @ '':00'')
        = Inr \<lparr>year = y, month = m, day = d, hour = h, minute = mi, second = 0,
               nanosecond = 0\<rparr>)
   \<and> (valid_date y m d h mi \<and> (sep = CHR ''/'' \<or> sep = CHR ''-'') \<and> 0 \<le> s \<and> s < 60 \<longrightarrow>
      time_Parse (strings_Replace_slash (date_string sep y m d h mi @ '':'' @ digits2 s) @ '':00'')
        = Inl (ParseError (date_string (CHR ''-'') y m d h mi @ '':'' @ digits2 s @ '':00'')
                (ExtraText '':00'')))
   \<and> (getLatestSeasonData now [(g, [(k, r)])] = Inl (FailedToParseStartTime err))
       = (time_Parse (strings_Replace_slash (Start r) @ '':00'') = Inl err)
   \<and> (getLatestSeasonData now [(g, [(k, r)])] = Inl (FailedToParseEndTime err))
       = ((\<exists>start. time_Parse (strings_Replace_slash (Start r) @ '':00'') = Inr start)
          \<and> time_Parse (strings_Replace_slash (End r) @ '':00'') = Inl err)"
proof (intro conjI impI)
  assume a: "valid_date y m d h mi \<and> (sep = CHR ''/'' \<or> sep = CHR ''-'')"
  then have v: "valid_date y m d h mi" and p: "sep = CHR ''/'' \<or> sep = CHR ''-''"
    by simp_all
  note n = normalize_date_string[OF v p]
  show "time_Parse (strings_Replace_slash (date_string sep y m d h mi) @ '':00'')
        = Inr \<lparr>year = y, month = m, day = d, hour = h, minute = mi, second = 0,
               nanosecond = 0\<rparr>"
    by (simp add: time_Parse_def n parse_date_string[OF v])
next
  assume a: "valid_date y m d h mi \<and> (sep = CHR ''/'' \<or> sep = CHR ''-'') \<and> 0 \<le> s \<and> s < 60"
  then have v: "valid_date y m d h mi" and p: "sep = CHR ''/'' \<or> sep = CHR ''-''"
    and s0: "0 \<le> s" and s60: "s < 60"
    by simp_all
  note n = normalize_date_string[OF v p]
  have s: "strings_Replace_slash (CHR '':'' # digits2 s) = CHR '':'' # digits2 s"
    using strings_Replace_slash_digits[of s] s0 s60
    by (simp add: strings_Replace_slash_def)
  show "time_Parse (strings_Replace_slash (date_string sep y m d h mi @ '':'' @ digits2 s) @ '':00'')
        = Inl (ParseError (date_string (CHR ''-'') y m d h mi @ '':'' @ digits2 s @ '':00'')
                (ExtraText '':00''))"
    using parse_date_string_seconds[OF v s0 s60]
    by (simp add: time_Parse_def strings_Replace_slash_append[of "date_string sep y m d h mi"] n s)
next
  show "(getLatestSeasonData now [(g, [(k, r)])] = Inl (FailedToParseStartTime err))
       = (time_Parse (strings_Replace_slash (Start r) @ '':00'') = Inl err)"
    by (rule single_record_start_failure)
next
  show "(getLatestSeasonData now [(g, [(k, r)])] = Inl (FailedToParseEndTime err))
       = ((\<exists>start. time_Parse (strings_Replace_slash (Start r) @ '':00'') = Inr start)
          \<and> time_Parse (strings_Replace_slash (End r) @ '':00'') = Inl err)"
    by (rule single_record_end_failure)
qed

text \<open>
  Claim C5 as stated fails on \<^verbatim>\<open>2024/01/01 09:00:00\<close>: the string is a valid date with
  a seconds field (with slashes replaced it parses as it is), \<^verbatim>\<open>:00\<close> is appended to it
  all the same, and the result does not parse.
\<close>

theorem C5_seconds_field_counterexample:
  "strings_Replace_slash (Start season_with_seconds) @ '':00'' = ''2024-01-01 09:00:00:00''
   \<and> time_Parse (strings_Replace_slash (Start season_with_seconds))
       = Inr \<lparr>year = 2024, month = 1, day = 1, hour = 9, minute = 0, second = 0, nanosecond = 0\<rparr>
   \<and> time_Parse (strings_Replace_slash (Start season_with_seconds) @ '':00'')
       = Inl (ParseError ''2024-01-01 09:00:00:00'' (ExtraText '':00''))
   \<and> getLatestSeasonData mid_january [(''114'', [(''10361'', season_with_seconds)])]
       = Inl (FailedToParseStartTime (ParseError ''2024-01-01 09:00:00:00'' (ExtraText '':00'')))"
  by (simp add: getLatestSeasonData_def season_with_seconds_def season14_def parse_defs)

text \<open>Claim C5, amended, on 2024/01/01 09:00, without and with the seconds field 30.\<close>

theorem C5_seconds_appended_always_witness:
  "valid_date 2024 1 1 9 0
   \<and> date_string (CHR ''/'') 2024 1 1 9 0 = ''2024/01/01 09:00''
   \<and> time_Parse (strings_Replace_slash ''2024/01/01 09:00'' @ '':00'')
       = Inr \<lparr>year = 2024, month = 1, day = 1, hour = 9, minute = 0, second = 0, nanosecond = 0\<rparr>
   \<and> time_Parse (strings_Replace_slash ''2024/01/01 09:00:30'' @ '':00'')
       = Inl (ParseError ''2024-01-01 09:00:30:00'' (ExtraText '':00''))"
proof -
  have v: "valid_date 2024 1 1 9 0" by (simp add: valid_date_def daysIn_def)
  have d: "date_string (CHR ''/'') 2024 1 1 9 0 = ''2024/01/01 09:00''"
    "date_string (CHR ''-'') 2024 1 1 9 0 = ''2024-01-01 09:00''"
    "digits2 30 = ''30''"
    by (simp_all add: date_string_def digits4_def digits2_def digit_char_def)
  from C5_seconds_appended_always [of 2024 1 1 9 0 "CHR ''/''" 30 mid_january "''114''"
      "''10361''" season14 "ParseError [] CannotParse"] v
  show ?thesis by (simp add: d)
qed

end
